theory Spec2Isabelle
  imports Main "HOL-Library.Log_Nat"
begin

section \<open>Outcomes of a run\<close>

text \<open>
  The importer never recovers from an error. \<open>FATAL(...)\<close> logs a message and calls
  \<open>exit(1)\<close>; \<open>CHECK(c)\<close> is documented in \<open>phd/macros.h\<close> as "check that the
  conditional is true else fail fatally" and is modelled with that meaning. (The macro
  writes \<open>!\<close> in front of its argument without parentheses. For the arguments that are
  calls, such as \<open>value_.empty()\<close>, this is the documented meaning; for a comparison
  such as \<open>unit_ == "kg"\<close> the expansion negates a string and is not valid C++, so the
  documented meaning is the only one there is.) Each place of the source that can
  stop the run is one constructor of \<open>failure\<close>.
\<close>

datatype failure =
    ParseDateFailed          \<comment> \<open>\<open>FATAL("Failed to parse date ...")\<close>\<close>
  | AttributeAlreadySet      \<comment> \<open>\<open>CHECK(attribute_value->empty())\<close>\<close>
  | NotAnInteger             \<comment> \<open>\<open>FATAL("Cannot convert string to integer ...")\<close>\<close>
  | NotADouble               \<comment> \<open>\<open>FATAL("Cannot convert string to double ...")\<close>\<close>
  | UnhandledType            \<comment> \<open>\<open>FATAL("Unhandled type for record ...")\<close>\<close>
  | MissingAttributes        \<comment> \<open>\<open>FATAL("Failed to parse necessary attributes ...")\<close>\<close>
  | UnitCheck string         \<comment> \<open>\<open>CHECK(unit_ == "u")\<close>, with the expected unit \<open>u\<close>\<close>
  | ExpectedPercent          \<comment> \<open>\<open>FATAL("Expected unit %%, received unit ...")\<close>\<close>
  | ValueNotEmpty            \<comment> \<open>\<open>CHECK(value_.empty())\<close>\<close>
  | UnitNotEmpty             \<comment> \<open>\<open>CHECK(unit_.empty())\<close>\<close>
  | SleepAnalysisValue       \<comment> \<open>\<open>FATAL("Could not handle the value field of sleep analysis ...")\<close>\<close>
  | StandHourValue           \<comment> \<open>\<open>FATAL("Could not handle the value field of stand hour ...")\<close>\<close>
  | SourceNameEmpty          \<comment> \<open>\<open>CHECK(!sourceName_.empty())\<close>\<close>

datatype error =
    Fatal failure            \<comment> \<open>the run logs and exits with code 1\<close>
  | BadPath string           \<comment> \<open>\<open>ptree_bad_path\<close> thrown by \<open>get_child\<close>, never caught\<close>
  | Undefined                \<comment> \<open>C++ leaves the behaviour undefined (conversion or overflow out of \<open>int64_t\<close>)\<close>

fun is_fatal :: "error \<Rightarrow> bool" where
  "is_fatal (Fatal f) = True"
| "is_fatal (BadPath p) = False"
| "is_fatal Undefined = False"

section \<open>Machine numbers\<close>

text \<open>\<open>int64_t\<close> (and \<open>long\<close> on the LP64 platforms the code is built for).\<close>

definition INT64_MIN :: int where
  "INT64_MIN = - (2 ^ 63)"

definition INT64_MAX :: int where
  "INT64_MAX = 2 ^ 63 - 1"

definition in_int64 :: "int \<Rightarrow> bool" where
  "in_int64 n \<longleftrightarrow> INT64_MIN \<le> n \<and> n \<le> INT64_MAX"

definition saturate_int64 :: "int \<Rightarrow> int" where
  "saturate_int64 n = max INT64_MIN (min INT64_MAX n)"

text \<open>Signed subtraction: the difference, or undefined behaviour when it overflows.\<close>

definition int64_sub :: "int \<Rightarrow> int \<Rightarrow> error + int" where
  "int64_sub a b = (if in_int64 (a - b) then Inr (a - b) else Inl Undefined)"

text \<open>Rounding towards zero, as C++ converts and divides.\<close>

definition truncate_rat :: "rat \<Rightarrow> int" where
  "truncate_rat q = (if 0 \<le> q then \<lfloor>q\<rfloor> else \<lceil>q\<rceil>)"

subsection \<open>IEEE 754 binary64\<close>

text \<open>
  A \<open>double\<close> is a finite value, an infinity or a NaN. A finite value is kept as the
  rational it denotes; the two zeros are not told apart, since no operation of the
  importer distinguishes them. \<open>round_to_double\<close> is rounding to nearest, ties to even,
  with 53 bits of precision, subnormals below \<open>2^-1022\<close> and overflow to infinity:
  with \<open>e\<close> the binary exponent of \<open>\<bar>x\<bar>\<close> and \<open>q = 2^(e - 52)\<close> the spacing of the
  doubles around it, \<open>\<bar>x\<bar>\<close> rounds to \<open>n * q\<close>, which is infinite when it reaches
  \<open>2^1024\<close>.
\<close>

datatype double = Finite rat | PlusInfinity | MinusInfinity | NaN

definition pow2 :: "int \<Rightarrow> rat" where
  "pow2 e = (if 0 \<le> e then 2 ^ nat e else 1 / 2 ^ nat (- e))"

definition ilog2 :: "rat \<Rightarrow> int" where
  \<comment> \<open>\<open>\<lfloor>log\<^sub>2 x\<rfloor>\<close> for \<open>x > 0\<close>\<close>
  "ilog2 x =
     (let (n, d) = quotient_of x; k = bitlen n - bitlen d
      in if pow2 k \<le> x then k else k - 1)"

definition round_half_even :: "rat \<Rightarrow> int" where
  "round_half_even x =
     (let f = \<lfloor>x\<rfloor>; r = x - of_int f
      in if r < 1 / 2 then f
         else if 1 / 2 < r then f + 1
         else if even f then f else f + 1)"

definition round_to_double :: "rat \<Rightarrow> double" where
  "round_to_double x =
     (if x = 0 then Finite 0
      else
        let a = \<bar>x\<bar>;
            e = max (ilog2 a) (- 1022);
            q = pow2 (e - 52);
            n = round_half_even (a / q)
        in if 1023 < e \<or> (e = 1023 \<and> 2 ^ 53 \<le> n)
           then (if 0 < x then PlusInfinity else MinusInfinity)
           else Finite (if 0 < x then of_int n * q else - (of_int n * q)))"

text \<open>The product of two doubles, \<open>a * b\<close>.\<close>

fun double_is_negative :: "double \<Rightarrow> bool" where
  "double_is_negative (Finite a) = (a < 0)"
| "double_is_negative MinusInfinity = True"
| "double_is_negative PlusInfinity = False"
| "double_is_negative NaN = False"

fun double_mult :: "double \<Rightarrow> double \<Rightarrow> double" where
  "double_mult (Finite a) (Finite b) = round_to_double (a * b)"
| "double_mult NaN b = NaN"
| "double_mult a NaN = NaN"
| "double_mult a b =
     (if a = Finite 0 \<or> b = Finite 0 then NaN
      else if double_is_negative a = double_is_negative b then PlusInfinity
      else MinusInfinity)"

text \<open>
  The implicit conversion of a \<open>double\<close> argument to an \<open>int64_t\<close> parameter: the
  fractional part is discarded; the behaviour is undefined when the truncated value
  does not fit (and for infinities and NaN).
\<close>

fun double_to_int64 :: "double \<Rightarrow> error + int" where
  "double_to_int64 (Finite a) =
     (if in_int64 (truncate_rat a) then Inr (truncate_rat a) else Inl Undefined)"
| "double_to_int64 PlusInfinity = Inl Undefined"
| "double_to_int64 MinusInfinity = Inl Undefined"
| "double_to_int64 NaN = Inl Undefined"

text \<open>The conversion of an \<open>int\<close> literal to \<open>double\<close> (exact for the literals used).\<close>

definition double_of_int :: "int \<Rightarrow> double" where
  "double_of_int n = round_to_double (of_int n)"

section \<open>The C library: \<open>strtol\<close> and \<open>strtod\<close>\<close>

text \<open>
  Both functions skip leading white space (\<open>isspace\<close> in the C locale), accept an
  optional sign, and convert the longest prefix that has the expected form. The model
  returns \<open>None\<close> when no conversion is performed (then \<open>endptr\<close> is the start of the
  string) and otherwise the value with the text from \<open>endptr\<close> on.
\<close>

definition isspace :: "char \<Rightarrow> bool" where
  "isspace c \<longleftrightarrow>
     c = CHR '' '' \<or> c = CHR 0x09 \<or> c = CHR 0x0A \<or> c = CHR 0x0B \<or> c = CHR 0x0C \<or> c = CHR 0x0D"

definition isdigit :: "char \<Rightarrow> bool" where
  "isdigit c \<longleftrightarrow> 48 \<le> (of_char c :: nat) \<and> (of_char c :: nat) \<le> 57"

definition tolower :: "char \<Rightarrow> char" where
  "tolower c =
     (if 65 \<le> (of_char c :: nat) \<and> (of_char c :: nat) \<le> 90
      then char_of (of_char c + (32 :: nat)) else c)"

definition isxdigit :: "char \<Rightarrow> bool" where
  "isxdigit c \<longleftrightarrow>
     isdigit c \<or> (97 \<le> (of_char (tolower c) :: nat) \<and> (of_char (tolower c) :: nat) \<le> 102)"

definition isalnum :: "char \<Rightarrow> bool" where
  "isalnum c \<longleftrightarrow>
     isdigit c \<or> (97 \<le> (of_char (tolower c) :: nat) \<and> (of_char (tolower c) :: nat) \<le> 122)"

definition digit_value :: "char \<Rightarrow> int" where
  "digit_value c = (if isdigit c then of_char c - 48 else of_char (tolower c) - 87)"

definition digits_value :: "int \<Rightarrow> string \<Rightarrow> int" where
  \<comment> \<open>the number written by a digit string in the given base\<close>
  "digits_value base ds = foldl (\<lambda>n c. base * n + digit_value c) 0 ds"

definition c_str :: "string \<Rightarrow> string" where
  \<comment> \<open>the C string seen through \<open>c_str()\<close>: it ends at the first NUL\<close>
  "c_str s = takeWhile (\<lambda>c. c \<noteq> CHR 0x00) s"

definition strip_sign :: "string \<Rightarrow> bool \<times> string" where
  "strip_sign s =
     (case s of
        [] \<Rightarrow> (False, s)
      | c # t \<Rightarrow> if c = CHR ''-'' then (True, t) else if c = CHR ''+'' then (False, t) else (False, s))"

definition strtol :: "string \<Rightarrow> (int \<times> string) option" where
  \<comment> \<open>\<open>strtol(nptr, &endptr, 10)\<close>; a value out of range is clamped to \<open>LONG_MIN\<close> or \<open>LONG_MAX\<close>\<close>
  "strtol nptr =
     (let (neg, s) = strip_sign (dropWhile isspace nptr);
          ds = takeWhile isdigit s
      in if ds = [] then None
         else
           let n = digits_value 10 ds
           in Some (saturate_int64 (if neg then - n else n), dropWhile isdigit s))"

definition ipow :: "rat \<Rightarrow> int \<Rightarrow> rat" where
  "ipow b e = (if 0 \<le> e then b ^ nat e else 1 / b ^ nat (- e))"

definition parse_exponent :: "char \<Rightarrow> string \<Rightarrow> int \<times> string" where
  \<comment> \<open>an optional exponent part: the marker, an optional sign, at least one decimal digit\<close>
  "parse_exponent marker s =
     (case s of
        [] \<Rightarrow> (0, s)
      | c # t \<Rightarrow>
          if tolower c \<noteq> marker then (0, s)
          else
            let (neg, u) = strip_sign t; ds = takeWhile isdigit u
            in if ds = [] then (0, s)
               else
                 let n = digits_value 10 ds
                 in (if neg then - n else n, dropWhile isdigit u))"

definition parse_mantissa :: "(char \<Rightarrow> bool) \<Rightarrow> string \<Rightarrow> (string \<times> string \<times> string) option" where
  \<comment> \<open>digits, an optional point, digits; at least one digit in all\<close>
  "parse_mantissa is_digit s =
     (let ip = takeWhile is_digit s; r = dropWhile is_digit s;
          (fp, r') =
            (case r of
               [] \<Rightarrow> ([], r)
             | c # t \<Rightarrow>
                 if c = CHR ''.'' then (takeWhile is_digit t, dropWhile is_digit t) else ([], r))
      in if ip = [] \<and> fp = [] then None else Some (ip, fp, r'))"

definition parse_decimal :: "string \<Rightarrow> (rat \<times> string) option" where
  "parse_decimal s =
     (case parse_mantissa isdigit s of
        None \<Rightarrow> None
      | Some (ip, fp, r) \<Rightarrow>
          let (ex, r') = parse_exponent (CHR ''e'') r
          in Some (of_int (digits_value 10 (ip @ fp)) * ipow 10 (ex - int (length fp)), r'))"

definition parse_hex :: "string \<Rightarrow> (rat \<times> string) option" where
  \<comment> \<open>\<open>0x\<close> or \<open>0X\<close>, hexadecimal digits with an optional point, an optional binary exponent\<close>
  "parse_hex s =
     (case s of
        z # x # t \<Rightarrow>
          if z = CHR ''0'' \<and> tolower x = CHR ''x'' then
            (case parse_mantissa isxdigit t of
               None \<Rightarrow> None
             | Some (ip, fp, r) \<Rightarrow>
                 let (ex, r') = parse_exponent (CHR ''p'') r
                 in Some (of_int (digits_value 16 (ip @ fp)) * ipow 2 (ex - 4 * int (length fp)), r'))
          else None
      | _ \<Rightarrow> None)"

definition parse_inf_nan :: "string \<Rightarrow> (double \<times> string) option" where
  \<comment> \<open>\<open>INF\<close>, \<open>INFINITY\<close>, \<open>NAN\<close> or \<open>NAN(n-char-sequence)\<close>, ignoring case\<close>
  "parse_inf_nan s =
     (if map tolower (take 8 s) = ''infinity'' then Some (PlusInfinity, drop 8 s)
      else if map tolower (take 3 s) = ''inf'' then Some (PlusInfinity, drop 3 s)
      else if map tolower (take 3 s) = ''nan'' then
        (case drop 3 s of
           [] \<Rightarrow> Some (NaN, [])
         | c # t \<Rightarrow>
             if c = CHR ''(''
                \<and> take 1 (dropWhile (\<lambda>d. isalnum d \<or> d = CHR ''_'') t) = '')''
             then Some (NaN, drop 1 (dropWhile (\<lambda>d. isalnum d \<or> d = CHR ''_'') t))
             else Some (NaN, c # t))
      else None)"

fun double_negate :: "double \<Rightarrow> double" where
  "double_negate (Finite a) = Finite (- a)"
| "double_negate PlusInfinity = MinusInfinity"
| "double_negate MinusInfinity = PlusInfinity"
| "double_negate NaN = NaN"

definition strtod :: "string \<Rightarrow> (double \<times> string) option" where
  \<comment> \<open>\<open>strtod(nptr, &endptr)\<close>, correctly rounded\<close>
  "strtod nptr =
     (let (neg, s) = strip_sign (dropWhile isspace nptr);
          sign = (\<lambda>d. if neg then double_negate d else d)
      in case parse_inf_nan s of
           Some (d, r) \<Rightarrow> Some (sign d, r)
         | None \<Rightarrow>
             (case parse_hex s of
                Some (q, r) \<Rightarrow> Some (sign (round_to_double q), r)
              | None \<Rightarrow>
                  (case parse_decimal s of
                     Some (q, r) \<Rightarrow> Some (sign (round_to_double q), r)
                   | None \<Rightarrow> None)))"

section \<open>Collaborators outside the translated sources\<close>

text \<open>
  Three things the importer uses are declared elsewhere and are parameters of the
  model, so that every result holds whatever they are:
  \<^item> \<open>ParseTime\<close> is \<open>absl::ParseTime\<close> with the format \<open>%Y-%m-%d %H:%M:%S %z\<close>:
    \<open>None\<close> when it returns false, otherwise the parsed \<open>absl::Time\<close>;
  \<^item> \<open>ToCamelCase\<close> is \<open>phd::ToCamelCase\<close>;
  \<^item> \<open>DefaultGroup\<close> gives, for each \<open>Consume...OrDie\<close> member function, the default
    argument of its \<open>group\<close> parameter, which the header declares and every call in
    \<open>AddMeasurementToSeries\<close> relies on.
\<close>

datatype Time = InfinitePast | UnixSeconds rat | InfiniteFuture

record externals =
  ParseTime :: "string \<Rightarrow> Time option"
  ToCamelCase :: "string \<Rightarrow> string"
  DefaultGroup :: "string \<Rightarrow> string"

section \<open>Parsing helpers of the importer\<close>

text \<open>
  \<open>(time - absl::UnixEpoch()) / absl::Milliseconds(1)\<close>: the whole milliseconds of the
  duration since the epoch, truncated towards zero and saturated to \<open>int64_t\<close>.
\<close>

fun unix_millis :: "Time \<Rightarrow> int" where
  "unix_millis (UnixSeconds s) = saturate_int64 (truncate_rat (s * 1000))"
| "unix_millis InfiniteFuture = INT64_MAX"
| "unix_millis InfinitePast = INT64_MIN"

definition ParseDateOrDie :: "externals \<Rightarrow> string \<Rightarrow> error + int" where
  "ParseDateOrDie ext date =
     (case ParseTime ext date of
        None \<Rightarrow> Inl (Fatal ParseDateFailed)
      | Some time \<Rightarrow> Inr (unix_millis time))"

definition ParseIntOrDie :: "string \<Rightarrow> error + int" where
  "ParseIntOrDie integer_string =
     (case strtol (c_str integer_string) of
        None \<Rightarrow> Inl (Fatal NotAnInteger)
      | Some (number, endptr) \<Rightarrow>
          if endptr \<noteq> [] then Inl (Fatal NotAnInteger) else Inr number)"

definition ParseDoubleOrDie :: "string \<Rightarrow> error + double" where
  "ParseDoubleOrDie double_string =
     (case strtod (c_str double_string) of
        None \<Rightarrow> Inl (Fatal NotADouble)
      | Some (number, endptr) \<Rightarrow>
          if endptr \<noteq> [] then Inl (Fatal NotADouble) else Inr number)"

section \<open>The data model\<close>

text \<open>
  A \<open>boost::property_tree::ptree\<close>: a node holds a string and an ordered list of
  children with their keys. \<open>read_xml\<close> stores the attributes of an element as the
  children of a child with key \<open><xmlattr>\<close>, each attribute value being the data of
  its node.
\<close>

datatype ptree = Node (data: string) (children: "(string \<times> ptree) list")

fun get_child :: "string \<Rightarrow> ptree \<Rightarrow> error + ptree" where
  \<comment> \<open>for a path of one key: the first child with that key, or \<open>ptree_bad_path\<close>\<close>
  "get_child key (Node d cs) =
     (case map_of cs key of None \<Rightarrow> Inl (BadPath key) | Some c \<Rightarrow> Inr c)"

text \<open>The protocol buffer messages the importer writes to.\<close>

record Measurement =
  ms_since_unix_epoch :: int
  "value" :: int
  group :: string
  source :: string

record Series =
  name :: string
  family :: string
  unit :: string
  measurement :: "Measurement list"

record SeriesCollection =
  collection_source :: string
  series :: "Series list"

definition new_Measurement :: Measurement where
  \<comment> \<open>a message as \<open>add_measurement()\<close> creates it\<close>
  "new_Measurement = \<lparr>ms_since_unix_epoch = 0, value = 0, group = [], source = []\<rparr>"

definition new_Series :: Series where
  \<comment> \<open>a message as \<open>add_series()\<close> creates it\<close>
  "new_Series = \<lparr>name = [], family = [], unit = [], measurement = []\<rparr>"

text \<open>
  The string members of \<open>RecordAttributes\<close> (\<open>type_\<close>, \<open>value_\<close>, ... in the source;
  a name cannot end with an underscore here). Its other members (\<open>series_\<close>,
  \<open>measurement_\<close> and \<open>new_series_\<close>) are set at the top of \<open>AddMeasurementToSeries\<close>
  and only used below it: the model passes the series and the flag as arguments, and
  the measurement that \<open>measurement_\<close> points to is the last one of the series.
\<close>

record RecordAttributes =
  attr_type :: string
  attr_value :: string
  attr_unit :: string
  attr_sourceName :: string
  attr_startDate :: string
  attr_endDate :: string

definition new_RecordAttributes :: RecordAttributes where
  "new_RecordAttributes =
     \<lparr>attr_type = [], attr_value = [], attr_unit = [], attr_sourceName = [], attr_startDate = [], attr_endDate = []\<rparr>"

section \<open>Extracting the attributes of a record\<close>

definition TryConsumeAttribute :: "string \<times> ptree \<Rightarrow> string \<Rightarrow> string \<Rightarrow> error + bool \<times> string" where
  \<comment> \<open>the result is the returned flag with the content of \<open>*attribute_value\<close> afterwards\<close>
  "TryConsumeAttribute attribute attribute_name attribute_value =
     (if fst attribute \<noteq> attribute_name then Inr (False, attribute_value)
      else if attribute_value \<noteq> [] then Inl (Fatal AttributeAlreadySet)
      else Inr (True, data (snd attribute)))"

definition consume_attribute :: "string \<times> ptree \<Rightarrow> RecordAttributes \<Rightarrow> error + bool \<times> RecordAttributes" where
  \<comment> \<open>the chain of \<open>||\<close> in the loop of \<open>CreateFromXmlRecord\<close>: the first call that returns true ends it\<close>
  "consume_attribute attr a =
     (case TryConsumeAttribute attr ''type'' (attr_type a) of
        Inl e \<Rightarrow> Inl e
      | Inr (True, v) \<Rightarrow> Inr (True, a\<lparr>attr_type := v\<rparr>)
      | Inr (False, _) \<Rightarrow>
     (case TryConsumeAttribute attr ''unit'' (attr_unit a) of
        Inl e \<Rightarrow> Inl e
      | Inr (True, v) \<Rightarrow> Inr (True, a\<lparr>attr_unit := v\<rparr>)
      | Inr (False, _) \<Rightarrow>
     (case TryConsumeAttribute attr ''value'' (attr_value a) of
        Inl e \<Rightarrow> Inl e
      | Inr (True, v) \<Rightarrow> Inr (True, a\<lparr>attr_value := v\<rparr>)
      | Inr (False, _) \<Rightarrow>
     (case TryConsumeAttribute attr ''sourceName'' (attr_sourceName a) of
        Inl e \<Rightarrow> Inl e
      | Inr (True, v) \<Rightarrow> Inr (True, a\<lparr>attr_sourceName := v\<rparr>)
      | Inr (False, _) \<Rightarrow>
     (case TryConsumeAttribute attr ''startDate'' (attr_startDate a) of
        Inl e \<Rightarrow> Inl e
      | Inr (True, v) \<Rightarrow> Inr (True, a\<lparr>attr_startDate := v\<rparr>)
      | Inr (False, _) \<Rightarrow>
     (case TryConsumeAttribute attr ''endDate'' (attr_endDate a) of
        Inl e \<Rightarrow> Inl e
      | Inr (True, v) \<Rightarrow> Inr (True, a\<lparr>attr_endDate := v\<rparr>)
      | Inr (False, _) \<Rightarrow> Inr (False, a)))))))"

text \<open>
  The loop over the attributes. It ends at the end of the list or, through the early
  \<open>return\<close>, as soon as the count is 6; the result is the attributes with the count
  reached.
\<close>

fun consume_attributes :: "(string \<times> ptree) list \<Rightarrow> RecordAttributes \<Rightarrow> nat \<Rightarrow> error + RecordAttributes \<times> nat" where
  "consume_attributes [] attributes attribute_count = Inr (attributes, attribute_count)"
| "consume_attributes (attr # rest) attributes attribute_count =
     (case consume_attribute attr attributes of
        Inl e \<Rightarrow> Inl e
      | Inr (consumed, attributes') \<Rightarrow>
          let attribute_count' = (if consumed then attribute_count + 1 else attribute_count)
          in if attribute_count' = 6 then Inr (attributes', attribute_count')
             else consume_attributes rest attributes' attribute_count')"

definition CreateFromXmlRecord :: "ptree \<Rightarrow> error + RecordAttributes" where
  "CreateFromXmlRecord record =
     (case get_child ''<xmlattr>'' record of
        Inl e \<Rightarrow> Inl e
      | Inr xmlattr \<Rightarrow>
          (case consume_attributes (children xmlattr) new_RecordAttributes 0 of
             Inl e \<Rightarrow> Inl e
           | Inr (attributes, attribute_count) \<Rightarrow>
               if attribute_count = 6 then Inr attributes
               else if \<not> (attribute_count = 5 \<and> attr_unit attributes = [])
                       \<and> \<not> (attribute_count = 4 \<and> attr_unit attributes = [] \<and> attr_value attributes = [])
               then Inl (Fatal MissingAttributes)
               else Inr attributes))"

section \<open>Converting a record into a measurement\<close>

definition SetMeasurement ::
  "externals \<Rightarrow> RecordAttributes \<Rightarrow> Series \<Rightarrow> bool \<Rightarrow>
     string \<Rightarrow> string \<Rightarrow> string \<Rightarrow> string \<Rightarrow> int \<Rightarrow> error + Series" where
  \<comment> \<open>the series that \<open>series_\<close> points to, once the new measurement at its end is filled in\<close>
  "SetMeasurement ext this series_p new_series family' name' group' unit' value' =
     (let series' =
            (if new_series then series_p\<lparr>name := name', family := family', unit := unit'\<rparr>
             else series_p)
      in case ParseDateOrDie ext (attr_startDate this) of
           Inl e \<Rightarrow> Inl e
         | Inr ms \<Rightarrow>
             let m = new_Measurement\<lparr>ms_since_unix_epoch := ms, value := value', group := group'\<rparr>
             in if attr_sourceName this = [] then Inl (Fatal SourceNameEmpty)
                else Inr (series'\<lparr>measurement := measurement series' @
                            [m\<lparr>source := ''HealthKit:'' @ ToCamelCase ext (attr_sourceName this)\<rparr>]\<rparr>))"

definition ConsumeCountOrDie ::
  "externals \<Rightarrow> RecordAttributes \<Rightarrow> Series \<Rightarrow> bool \<Rightarrow> string \<Rightarrow> string \<Rightarrow> string \<Rightarrow> error + Series" where
  "ConsumeCountOrDie ext this series_p new_series family' name' group' =
     (if attr_unit this \<noteq> ''count'' then Inl (Fatal (UnitCheck ''count''))
      else
        case ParseIntOrDie (attr_value this) of
          Inl e \<Rightarrow> Inl e
        | Inr v \<Rightarrow> SetMeasurement ext this series_p new_series family' name' group' ''count'' v)"

definition ConsumeBodyMassIndexOrDie ::
  "externals \<Rightarrow> RecordAttributes \<Rightarrow> Series \<Rightarrow> bool \<Rightarrow> string \<Rightarrow> string \<Rightarrow> string \<Rightarrow> error + Series" where
  "ConsumeBodyMassIndexOrDie ext this series_p new_series family' name' group' =
     (if attr_unit this \<noteq> ''count'' then Inl (Fatal (UnitCheck ''count''))
      else
        case ParseDoubleOrDie (attr_value this) of
          Inl e \<Rightarrow> Inl e
        | Inr d \<Rightarrow>
            (case double_to_int64 (double_mult d (double_of_int 1000000)) of
               Inl e \<Rightarrow> Inl e
             | Inr v \<Rightarrow> SetMeasurement ext this series_p new_series family' name' group' ''body_mass_index_millis'' v))"

definition ConsumePercentageOrDie ::
  "externals \<Rightarrow> RecordAttributes \<Rightarrow> Series \<Rightarrow> bool \<Rightarrow> string \<Rightarrow> string \<Rightarrow> string \<Rightarrow> error + Series" where
  "ConsumePercentageOrDie ext this series_p new_series family' name' group' =
     (if attr_unit this \<noteq> ''%'' then Inl (Fatal ExpectedPercent)
      else
        case ParseDoubleOrDie (attr_value this) of
          Inl e \<Rightarrow> Inl e
        | Inr d \<Rightarrow>
            (case double_to_int64 (double_mult d (double_of_int 1000000)) of
               Inl e \<Rightarrow> Inl e
             | Inr v \<Rightarrow> SetMeasurement ext this series_p new_series family' name' group' ''percentage_millis'' v))"

definition ConsumeCountsPerMinuteOrDie ::
  "externals \<Rightarrow> RecordAttributes \<Rightarrow> Series \<Rightarrow> bool \<Rightarrow> string \<Rightarrow> string \<Rightarrow> string \<Rightarrow> error + Series" where
  "ConsumeCountsPerMinuteOrDie ext this series_p new_series family' name' group' =
     (if attr_unit this \<noteq> ''count/min'' then Inl (Fatal (UnitCheck ''count/min''))
      else
        case ParseDoubleOrDie (attr_value this) of
          Inl e \<Rightarrow> Inl e
        | Inr d \<Rightarrow>
            (case double_to_int64 (double_mult d (double_of_int 1000000)) of
               Inl e \<Rightarrow> Inl e
             | Inr v \<Rightarrow> SetMeasurement ext this series_p new_series family' name' group' ''beats_per_minute_millis'' v))"

definition unit_mL_per_min_kg :: string where
  \<comment> \<open>the unit of VO2 max; its middle dot is the two bytes of U+00B7 in UTF-8\<close>
  "unit_mL_per_min_kg = ''mL/min'' @ [CHR 0xC2, CHR 0xB7] @ ''kg''"

definition ConsumeMillilitersPerKilogramMinuteOrDie ::
  "externals \<Rightarrow> RecordAttributes \<Rightarrow> Series \<Rightarrow> bool \<Rightarrow> string \<Rightarrow> string \<Rightarrow> string \<Rightarrow> error + Series" where
  "ConsumeMillilitersPerKilogramMinuteOrDie ext this series_p new_series family' name' group' =
     (if attr_unit this \<noteq> unit_mL_per_min_kg then Inl (Fatal (UnitCheck unit_mL_per_min_kg))
      else
        case ParseDoubleOrDie (attr_value this) of
          Inl e \<Rightarrow> Inl e
        | Inr d \<Rightarrow>
            (case double_to_int64 (double_mult d (double_of_int 1000000)) of
               Inl e \<Rightarrow> Inl e
             | Inr v \<Rightarrow> SetMeasurement ext this series_p new_series family' name' group' ''milliliters_per_kilogram_per_minute_millis'' v))"

definition ConsumeKCalOrDie ::
  "externals \<Rightarrow> RecordAttributes \<Rightarrow> Series \<Rightarrow> bool \<Rightarrow> string \<Rightarrow> string \<Rightarrow> string \<Rightarrow> error + Series" where
  "ConsumeKCalOrDie ext this series_p new_series family' name' group' =
     (if attr_unit this \<noteq> ''kcal'' then Inl (Fatal (UnitCheck ''kcal''))
      else
        case ParseDoubleOrDie (attr_value this) of
          Inl e \<Rightarrow> Inl e
        | Inr d \<Rightarrow>
            (case double_to_int64 (double_mult d (double_of_int 1000)) of
               Inl e \<Rightarrow> Inl e
             | Inr v \<Rightarrow> SetMeasurement ext this series_p new_series family' name' group' ''calories'' v))"

definition ConsumeKilometersOrDie ::
  "externals \<Rightarrow> RecordAttributes \<Rightarrow> Series \<Rightarrow> bool \<Rightarrow> string \<Rightarrow> string \<Rightarrow> string \<Rightarrow> error + Series" where
  "ConsumeKilometersOrDie ext this series_p new_series family' name' group' =
     (if attr_unit this \<noteq> ''km'' then Inl (Fatal (UnitCheck ''km''))
      else
        case ParseDoubleOrDie (attr_value this) of
          Inl e \<Rightarrow> Inl e
        | Inr d \<Rightarrow>
            (case double_to_int64 (double_mult d (double_of_int 1000000)) of
               Inl e \<Rightarrow> Inl e
             | Inr v \<Rightarrow> SetMeasurement ext this series_p new_series family' name' group' ''millimeters'' v))"

definition ConsumeCentimetersOrDie ::
  "externals \<Rightarrow> RecordAttributes \<Rightarrow> Series \<Rightarrow> bool \<Rightarrow> string \<Rightarrow> string \<Rightarrow> string \<Rightarrow> error + Series" where
  "ConsumeCentimetersOrDie ext this series_p new_series family' name' group' =
     (if attr_unit this \<noteq> ''cm'' then Inl (Fatal (UnitCheck ''cm''))
      else
        case ParseDoubleOrDie (attr_value this) of
          Inl e \<Rightarrow> Inl e
        | Inr d \<Rightarrow>
            (case double_to_int64 (double_mult d (double_of_int 10)) of
               Inl e \<Rightarrow> Inl e
             | Inr v \<Rightarrow> SetMeasurement ext this series_p new_series family' name' group' ''millimeters'' v))"

definition ConsumeMillilitersOrDie ::
  "externals \<Rightarrow> RecordAttributes \<Rightarrow> Series \<Rightarrow> bool \<Rightarrow> string \<Rightarrow> string \<Rightarrow> string \<Rightarrow> error + Series" where
  "ConsumeMillilitersOrDie ext this series_p new_series family' name' group' =
     (if attr_unit this \<noteq> ''mL'' then Inl (Fatal (UnitCheck ''mL''))
      else
        case ParseIntOrDie (attr_value this) of
          Inl e \<Rightarrow> Inl e
        | Inr v \<Rightarrow> SetMeasurement ext this series_p new_series family' name' group' ''milliliters'' v)"

definition ConsumeKilogramsOrDie ::
  "externals \<Rightarrow> RecordAttributes \<Rightarrow> Series \<Rightarrow> bool \<Rightarrow> string \<Rightarrow> string \<Rightarrow> string \<Rightarrow> error + Series" where
  "ConsumeKilogramsOrDie ext this series_p new_series family' name' group' =
     (if attr_unit this \<noteq> ''kg'' then Inl (Fatal (UnitCheck ''kg''))
      else
        case ParseDoubleOrDie (attr_value this) of
          Inl e \<Rightarrow> Inl e
        | Inr d \<Rightarrow>
            (case double_to_int64 (double_mult d (double_of_int 1000000)) of
               Inl e \<Rightarrow> Inl e
             | Inr v \<Rightarrow> SetMeasurement ext this series_p new_series family' name' group' ''milligrams'' v))"

definition ConsumeGramsOrDie ::
  "externals \<Rightarrow> RecordAttributes \<Rightarrow> Series \<Rightarrow> bool \<Rightarrow> string \<Rightarrow> string \<Rightarrow> string \<Rightarrow> error + Series" where
  "ConsumeGramsOrDie ext this series_p new_series family' name' group' =
     (if attr_unit this \<noteq> ''g'' then Inl (Fatal (UnitCheck ''g''))
      else
        case ParseDoubleOrDie (attr_value this) of
          Inl e \<Rightarrow> Inl e
        | Inr d \<Rightarrow>
            (case double_to_int64 (double_mult d (double_of_int 1000)) of
               Inl e \<Rightarrow> Inl e
             | Inr v \<Rightarrow> SetMeasurement ext this series_p new_series family' name' group' ''milligrams'' v))"

definition ConsumeMilligramsOrDie ::
  "externals \<Rightarrow> RecordAttributes \<Rightarrow> Series \<Rightarrow> bool \<Rightarrow> string \<Rightarrow> string \<Rightarrow> string \<Rightarrow> error + Series" where
  "ConsumeMilligramsOrDie ext this series_p new_series family' name' group' =
     (if attr_unit this \<noteq> ''mg'' then Inl (Fatal (UnitCheck ''mg''))
      else
        case ParseDoubleOrDie (attr_value this) of
          Inl e \<Rightarrow> Inl e
        | Inr d \<Rightarrow>
            (case double_to_int64 d of
               Inl e \<Rightarrow> Inl e
             | Inr v \<Rightarrow> SetMeasurement ext this series_p new_series family' name' group' ''milligrams'' v))"

definition ConsumeMinutesOrDie ::
  "externals \<Rightarrow> RecordAttributes \<Rightarrow> Series \<Rightarrow> bool \<Rightarrow> string \<Rightarrow> string \<Rightarrow> string \<Rightarrow> error + Series" where
  "ConsumeMinutesOrDie ext this series_p new_series family' name' group' =
     (if attr_unit this \<noteq> ''min'' then Inl (Fatal (UnitCheck ''min''))
      else
        case ParseDoubleOrDie (attr_value this) of
          Inl e \<Rightarrow> Inl e
        | Inr d \<Rightarrow>
            (case double_to_int64 (double_mult (double_mult d (double_of_int 60)) (double_of_int 1000)) of
               Inl e \<Rightarrow> Inl e
             | Inr v \<Rightarrow> SetMeasurement ext this series_p new_series family' name' group' ''milliseconds'' v))"

definition ConsumeMillisecondsOrDie ::
  "externals \<Rightarrow> RecordAttributes \<Rightarrow> Series \<Rightarrow> bool \<Rightarrow> string \<Rightarrow> string \<Rightarrow> string \<Rightarrow> error + Series" where
  "ConsumeMillisecondsOrDie ext this series_p new_series family' name' group' =
     (if attr_unit this \<noteq> ''ms'' then Inl (Fatal (UnitCheck ''ms''))
      else
        case ParseDoubleOrDie (attr_value this) of
          Inl e \<Rightarrow> Inl e
        | Inr d \<Rightarrow>
            (case double_to_int64 d of
               Inl e \<Rightarrow> Inl e
             | Inr v \<Rightarrow> SetMeasurement ext this series_p new_series family' name' group' ''milliseconds'' v))"

definition duration_ms :: "externals \<Rightarrow> RecordAttributes \<Rightarrow> error + int" where
  \<comment> \<open>\<open>ParseDateOrDie(endDate_) - ParseDateOrDie(startDate_)\<close>\<close>
  "duration_ms ext this =
     (case ParseDateOrDie ext (attr_endDate this) of
        Inl e \<Rightarrow> Inl e
      | Inr end_ms \<Rightarrow>
          (case ParseDateOrDie ext (attr_startDate this) of
             Inl e \<Rightarrow> Inl e
           | Inr start_ms \<Rightarrow> int64_sub end_ms start_ms))"

definition ConsumeDurationOrDie ::
  "externals \<Rightarrow> RecordAttributes \<Rightarrow> Series \<Rightarrow> bool \<Rightarrow> string \<Rightarrow> string \<Rightarrow> string \<Rightarrow> error + Series" where
  "ConsumeDurationOrDie ext this series_p new_series family' name' group' =
     (if attr_value this \<noteq> [] then Inl (Fatal ValueNotEmpty)
      else if attr_unit this \<noteq> [] then Inl (Fatal UnitNotEmpty)
      else
        case duration_ms ext this of
          Inl e \<Rightarrow> Inl e
        | Inr v \<Rightarrow> SetMeasurement ext this series_p new_series family' name' group' ''milliseconds'' v)"

definition ConsumeSleepAnalysisOrDie ::
  "externals \<Rightarrow> RecordAttributes \<Rightarrow> Series \<Rightarrow> bool \<Rightarrow> string \<Rightarrow> string \<Rightarrow> error + Series" where
  "ConsumeSleepAnalysisOrDie ext this series_p new_series family' group' =
     (if attr_unit this \<noteq> [] then Inl (Fatal UnitNotEmpty)
      else
        case (if attr_value this = ''HKCategoryValueSleepAnalysisAsleep'' then Inr ''SleepTime''
              else if attr_value this = ''HKCategoryValueSleepAnalysisInBed'' then Inr ''InBedTime''
              else if attr_value this = ''HKCategoryValueSleepAnalysisAwake'' then Inr ''AwakeTime''
              else Inl (Fatal SleepAnalysisValue)) of
          Inl e \<Rightarrow> Inl e
        | Inr name' \<Rightarrow>
            (case duration_ms ext this of
               Inl e \<Rightarrow> Inl e
             | Inr v \<Rightarrow> SetMeasurement ext this series_p new_series family' name' group' ''milliseconds'' v))"

definition ConsumeStandHourOrDie ::
  "externals \<Rightarrow> RecordAttributes \<Rightarrow> Series \<Rightarrow> bool \<Rightarrow> string \<Rightarrow> string \<Rightarrow> error + Series" where
  "ConsumeStandHourOrDie ext this series_p new_series family' group' =
     (if attr_unit this \<noteq> [] then Inl (Fatal UnitNotEmpty)
      else
        case (if attr_value this = ''HKCategoryValueAppleStandHourIdle'' then Inr ''IdleHours''
              else if attr_value this = ''HKCategoryValueAppleStandHourStood'' then Inr ''StandHours''
              else Inl (Fatal StandHourValue)) of
          Inl e \<Rightarrow> Inl e
        | Inr name' \<Rightarrow> SetMeasurement ext this series_p new_series family' name' group' ''count'' 1)"

definition ConsumeCountableEventOrDie ::
  "externals \<Rightarrow> RecordAttributes \<Rightarrow> Series \<Rightarrow> bool \<Rightarrow> string \<Rightarrow> string \<Rightarrow> string \<Rightarrow> error + Series" where
  "ConsumeCountableEventOrDie ext this series_p new_series family' name' group' =
     (if attr_unit this \<noteq> [] then Inl (Fatal UnitNotEmpty)
      else SetMeasurement ext this series_p new_series family' name' group' ''count'' 1)"

text \<open>
  The dispatch on the type of the record. No call passes a \<open>group\<close>: each takes the
  default argument that the header declares for the member function it calls.
\<close>

definition AddMeasurementToSeries ::
  "externals \<Rightarrow> RecordAttributes \<Rightarrow> Series \<Rightarrow> bool \<Rightarrow> error + Series" where
  "AddMeasurementToSeries ext this series_p new_series =
     (if attr_type this = ''HKQuantityTypeIdentifierDietaryWater'' then
        ConsumeMillilitersOrDie ext this series_p new_series ''Diet'' ''WaterConsumed'' (DefaultGroup ext ''ConsumeMillilitersOrDie'')
      else if attr_type this = ''HKQuantityTypeIdentifierBodyMassIndex'' then
        ConsumeBodyMassIndexOrDie ext this series_p new_series ''BodyMeasurements'' ''BodyMassIndex'' (DefaultGroup ext ''ConsumeBodyMassIndexOrDie'')
      else if attr_type this = ''HKQuantityTypeIdentifierHeight'' then
        ConsumeCentimetersOrDie ext this series_p new_series ''BodyMeasurements'' ''Height'' (DefaultGroup ext ''ConsumeCentimetersOrDie'')
      else if attr_type this = ''HKQuantityTypeIdentifierBodyMass'' then
        ConsumeKilogramsOrDie ext this series_p new_series ''BodyMeasurements'' ''Weight'' (DefaultGroup ext ''ConsumeKilogramsOrDie'')
      else if attr_type this = ''HKQuantityTypeIdentifierHeartRate'' then
        ConsumeCountsPerMinuteOrDie ext this series_p new_series ''BodyMeasurements'' ''HeartRate'' (DefaultGroup ext ''ConsumeCountsPerMinuteOrDie'')
      else if attr_type this = ''HKQuantityTypeIdentifierBodyFatPercentage'' then
        ConsumePercentageOrDie ext this series_p new_series ''BodyMeasurements'' ''BodyFatPercentage'' (DefaultGroup ext ''ConsumePercentageOrDie'')
      else if attr_type this = ''HKQuantityTypeIdentifierLeanBodyMass'' then
        ConsumeKilogramsOrDie ext this series_p new_series ''BodyMeasurements'' ''LeanBodyMass'' (DefaultGroup ext ''ConsumeKilogramsOrDie'')
      else if attr_type this = ''HKQuantityTypeIdentifierStepCount'' then
        ConsumeCountOrDie ext this series_p new_series ''Activity'' ''StepCount'' (DefaultGroup ext ''ConsumeCountOrDie'')
      else if attr_type this = ''HKQuantityTypeIdentifierDistanceWalkingRunning'' then
        ConsumeKilometersOrDie ext this series_p new_series ''Activity'' ''WalkingRunningDistance'' (DefaultGroup ext ''ConsumeKilometersOrDie'')
      else if attr_type this = ''HKQuantityTypeIdentifierBasalEnergyBurned'' then
        ConsumeKCalOrDie ext this series_p new_series ''Activity'' ''RestingEnergy'' (DefaultGroup ext ''ConsumeKCalOrDie'')
      else if attr_type this = ''HKQuantityTypeIdentifierActiveEnergyBurned'' then
        ConsumeKCalOrDie ext this series_p new_series ''Activity'' ''ActiveEnergy'' (DefaultGroup ext ''ConsumeKCalOrDie'')
      else if attr_type this = ''HKQuantityTypeIdentifierFlightsClimbed'' then
        ConsumeCountOrDie ext this series_p new_series ''Activity'' ''FlightClimbed'' (DefaultGroup ext ''ConsumeCountOrDie'')
      else if attr_type this = ''HKQuantityTypeIdentifierDietaryFatTotal'' then
        ConsumeGramsOrDie ext this series_p new_series ''Diet'' ''TotalFatConsumed'' (DefaultGroup ext ''ConsumeGramsOrDie'')
      else if attr_type this = ''HKQuantityTypeIdentifierDietaryFatSaturated'' then
        ConsumeGramsOrDie ext this series_p new_series ''Diet'' ''SaturatedFatConsumed'' (DefaultGroup ext ''ConsumeGramsOrDie'')
      else if attr_type this = ''HKQuantityTypeIdentifierDietaryCholesterol'' then
        ConsumeMilligramsOrDie ext this series_p new_series ''Diet'' ''CholesterolConsumed'' (DefaultGroup ext ''ConsumeMilligramsOrDie'')
      else if attr_type this = ''HKQuantityTypeIdentifierDietarySodium'' then
        ConsumeMilligramsOrDie ext this series_p new_series ''Diet'' ''SodiumConsumed'' (DefaultGroup ext ''ConsumeMilligramsOrDie'')
      else if attr_type this = ''HKQuantityTypeIdentifierDietaryCarbohydrates'' then
        ConsumeGramsOrDie ext this series_p new_series ''Diet'' ''CarbohydratesConsumed'' (DefaultGroup ext ''ConsumeGramsOrDie'')
      else if attr_type this = ''HKQuantityTypeIdentifierDietaryFiber'' then
        ConsumeGramsOrDie ext this series_p new_series ''Diet'' ''FiberConsumed'' (DefaultGroup ext ''ConsumeGramsOrDie'')
      else if attr_type this = ''HKQuantityTypeIdentifierAppleExerciseTime'' then
        ConsumeMinutesOrDie ext this series_p new_series ''TimeTracking'' ''ExerciseTime'' (DefaultGroup ext ''ConsumeMinutesOrDie'')
      else if attr_type this = ''HKQuantityTypeIdentifierDietaryCaffeine'' then
        ConsumeMilligramsOrDie ext this series_p new_series ''Diet'' ''CaffeineConsumed'' (DefaultGroup ext ''ConsumeMilligramsOrDie'')
      else if attr_type this = ''HKQuantityTypeIdentifierDistanceCycling'' then
        ConsumeKilometersOrDie ext this series_p new_series ''Activity'' ''DistanceCycling'' (DefaultGroup ext ''ConsumeKilometersOrDie'')
      else if attr_type this = ''HKQuantityTypeIdentifierRestingHeartRate'' then
        ConsumeCountsPerMinuteOrDie ext this series_p new_series ''BodyMeasurements'' ''RestingHeartRate'' (DefaultGroup ext ''ConsumeCountsPerMinuteOrDie'')
      else if attr_type this = ''HKQuantityTypeIdentifierVO2Max'' then
        ConsumeMillilitersPerKilogramMinuteOrDie ext this series_p new_series ''BodyMeasurements'' ''VO2Max'' (DefaultGroup ext ''ConsumeMillilitersPerKilogramMinuteOrDie'')
      else if attr_type this = ''HKQuantityTypeIdentifierWalkingHeartRateAverage'' then
        ConsumeCountsPerMinuteOrDie ext this series_p new_series ''BodyMeasurements'' ''WalkingHeartRateAvg'' (DefaultGroup ext ''ConsumeCountsPerMinuteOrDie'')
      else if attr_type this = ''HKCategoryTypeIdentifierSleepAnalysis'' then
        ConsumeSleepAnalysisOrDie ext this series_p new_series ''Activity'' (DefaultGroup ext ''ConsumeSleepAnalysisOrDie'')
      else if attr_type this = ''HKCategoryTypeIdentifierAppleStandHour'' then
        ConsumeStandHourOrDie ext this series_p new_series ''Activity'' (DefaultGroup ext ''ConsumeStandHourOrDie'')
      else if attr_type this = ''HKCategoryTypeIdentifierSexualActivity'' then
        ConsumeCountableEventOrDie ext this series_p new_series ''Activity'' ''SexualActivityCount'' (DefaultGroup ext ''ConsumeCountableEventOrDie'')
      else if attr_type this = ''HKCategoryTypeIdentifierMindfulSession'' then
        ConsumeDurationOrDie ext this series_p new_series ''TimeTracking'' ''MindfulnessTime'' (DefaultGroup ext ''ConsumeDurationOrDie'')
      else if attr_type this = ''HKQuantityTypeIdentifierHeartRateVariabilitySDNN'' then
        ConsumeMillisecondsOrDie ext this series_p new_series ''BodyMeasurements'' ''HeartRateVariability'' (DefaultGroup ext ''ConsumeMillisecondsOrDie'')
      else if attr_type this = ''HKQuantityTypeIdentifierDietarySugar'' then
        ConsumeGramsOrDie ext this series_p new_series ''Diet'' ''SugarConsumed'' (DefaultGroup ext ''ConsumeGramsOrDie'')
      else if attr_type this = ''HKQuantityTypeIdentifierDietaryEnergyConsumed'' then
        ConsumeKCalOrDie ext this series_p new_series ''Diet'' ''CaloriesConsumed'' (DefaultGroup ext ''ConsumeKCalOrDie'')
      else if attr_type this = ''HKQuantityTypeIdentifierDietaryProtein'' then
        ConsumeGramsOrDie ext this series_p new_series ''Diet'' ''ProteinConsumed'' (DefaultGroup ext ''ConsumeGramsOrDie'')
      else if attr_type this = ''HKQuantityTypeIdentifierDietaryPotassium'' then
        ConsumeMilligramsOrDie ext this series_p new_series ''Diet'' ''PotassiumConsumed'' (DefaultGroup ext ''ConsumeMilligramsOrDie'')
      else Inl (Fatal UnhandledType))"

section \<open>The export pipeline\<close>

text \<open>
  Modelled from the spec: \<open>FindOrAdd\<close> (of \<open>phd\<close>, not among the translated sources).
  Section 4.5 describes the lookup it performs for the pipeline: a key that is
  registered yields its value and nothing else happens; a key that is not yields
  what the callback returns, the callback being run once. The map lives in the
  state, as the callback of the pipeline changes it.
\<close>

definition FindOrAdd :: "('s \<Rightarrow> 'k \<rightharpoonup> 'v) \<Rightarrow> 'k \<Rightarrow> ('k \<Rightarrow> 's \<Rightarrow> 'v \<times> 's) \<Rightarrow> 's \<Rightarrow> 'v \<times> 's" where
  "FindOrAdd map_of_state key add_callback st =
     (case map_of_state st key of
        Some v \<Rightarrow> (v, st)
      | None \<Rightarrow> add_callback key st)"

text \<open>
  The state of the loop of \<open>ProcessHealthKitXmlExport\<close>. A \<open>Series*\<close> is the position of
  the series in the collection (\<open>add_series()\<close> appends, and series never move). The
  map starts empty and only ever receives the position of a series just added, so
  every position it holds is one of the collection (\<open>registry_ok\<close> below, which the
  loop is shown to keep).
\<close>

record export_state =
  type_to_series_map :: "string \<rightharpoonup> nat"
  series_collection :: SeriesCollection
  set_properties_on_series :: bool

definition add_series_callback :: "string \<Rightarrow> export_state \<Rightarrow> nat \<times> export_state" where
  \<comment> \<open>the lambda given to \<open>FindOrAdd\<close>; \<open>insert\<close> keeps an entry that is already there\<close>
  "add_series_callback name' st =
     (let collection = series_collection st;
          series_p = length (series collection);
          m = type_to_series_map st
      in (series_p,
          st\<lparr>set_properties_on_series := True,
             series_collection := collection\<lparr>series := series collection @ [new_Series]\<rparr>,
             type_to_series_map := (if name' \<in> dom m then m else m(name' \<mapsto> series_p))\<rparr>))"

definition resolve_series :: "string \<Rightarrow> export_state \<Rightarrow> nat \<times> export_state" where
  \<comment> \<open>the top of the loop body: the flag is cleared, then the series of the type is found or added\<close>
  "resolve_series t st =
     FindOrAdd type_to_series_map t add_series_callback (st\<lparr>set_properties_on_series := False\<rparr>)"

fun process_elements :: "externals \<Rightarrow> (string \<times> ptree) list \<Rightarrow> export_state \<Rightarrow> error + export_state" where
  "process_elements ext [] st = Inr st"
| "process_elements ext (health_elem # rest) st =
     (if fst health_elem \<noteq> ''Record'' then process_elements ext rest st
      else
        case CreateFromXmlRecord (snd health_elem) of
          Inl e \<Rightarrow> Inl e
        | Inr record \<Rightarrow>
            let (series_p, st') = resolve_series (attr_type record) st;
                collection = series_collection st'
            in case AddMeasurementToSeries ext record (series collection ! series_p)
                      (set_properties_on_series st') of
                 Inl e \<Rightarrow> Inl e
               | Inr s \<Rightarrow>
                   process_elements ext rest
                     (st'\<lparr>series_collection := collection\<lparr>series := (series collection)[series_p := s]\<rparr>\<rparr>))"

text \<open>
  The export, from the parsed document on (opening and reading the file named by the
  collection is outside the model).
\<close>

definition ProcessHealthKitXmlExport :: "externals \<Rightarrow> ptree \<Rightarrow> SeriesCollection \<Rightarrow> error + SeriesCollection" where
  "ProcessHealthKitXmlExport ext xml_root collection =
     (case get_child ''HealthData'' xml_root of
        Inl e \<Rightarrow> Inl e
      | Inr health_data \<Rightarrow>
          (case process_elements ext (children health_data)
                  \<lparr>type_to_series_map = Map.empty, series_collection = collection,
                   set_properties_on_series = False\<rparr> of
             Inl e \<Rightarrow> Inl e
           | Inr st \<Rightarrow> Inr (series_collection st)))"

section \<open>The conversion rules as a table\<close>

text \<open>
  The specification (section 4.4) presents the dispatch as a table from the record
  type to a conversion rule: the expected raw unit, the target unit, the scale or
  derivation, and the destination. The definitions of this section are that table.
  A rule is named after the member function that implements it;
  \<open>conversion_rules\<close> gives, for each record type, the rule, the family and the name
  (no name where the rule selects it from the value of the record).
  \<open>AddMeasurementToSeries\<close> is shown below to compute what the table says.
\<close>

datatype consumer =
    Count
  | BodyMassIndex
  | Percentage
  | CountsPerMinute
  | MillilitersPerKilogramMinute
  | KCal
  | Kilometers
  | Centimeters
  | Milliliters
  | Kilograms
  | Grams
  | Milligrams
  | Minutes
  | Milliseconds
  | Duration
  | SleepAnalysis
  | StandHour
  | CountableEvent

fun member_function :: "consumer \<Rightarrow> string" where
  "member_function Count = ''ConsumeCountOrDie''"
| "member_function BodyMassIndex = ''ConsumeBodyMassIndexOrDie''"
| "member_function Percentage = ''ConsumePercentageOrDie''"
| "member_function CountsPerMinute = ''ConsumeCountsPerMinuteOrDie''"
| "member_function MillilitersPerKilogramMinute = ''ConsumeMillilitersPerKilogramMinuteOrDie''"
| "member_function KCal = ''ConsumeKCalOrDie''"
| "member_function Kilometers = ''ConsumeKilometersOrDie''"
| "member_function Centimeters = ''ConsumeCentimetersOrDie''"
| "member_function Milliliters = ''ConsumeMillilitersOrDie''"
| "member_function Kilograms = ''ConsumeKilogramsOrDie''"
| "member_function Grams = ''ConsumeGramsOrDie''"
| "member_function Milligrams = ''ConsumeMilligramsOrDie''"
| "member_function Minutes = ''ConsumeMinutesOrDie''"
| "member_function Milliseconds = ''ConsumeMillisecondsOrDie''"
| "member_function Duration = ''ConsumeDurationOrDie''"
| "member_function SleepAnalysis = ''ConsumeSleepAnalysisOrDie''"
| "member_function StandHour = ''ConsumeStandHourOrDie''"
| "member_function CountableEvent = ''ConsumeCountableEventOrDie''"

definition conversion_rules :: "(string \<times> consumer \<times> string \<times> string option) list" where
  "conversion_rules =
     [(''HKQuantityTypeIdentifierDietaryWater'', Milliliters, ''Diet'', Some ''WaterConsumed''),
      (''HKQuantityTypeIdentifierBodyMassIndex'', BodyMassIndex, ''BodyMeasurements'', Some ''BodyMassIndex''),
      (''HKQuantityTypeIdentifierHeight'', Centimeters, ''BodyMeasurements'', Some ''Height''),
      (''HKQuantityTypeIdentifierBodyMass'', Kilograms, ''BodyMeasurements'', Some ''Weight''),
      (''HKQuantityTypeIdentifierHeartRate'', CountsPerMinute, ''BodyMeasurements'', Some ''HeartRate''),
      (''HKQuantityTypeIdentifierBodyFatPercentage'', Percentage, ''BodyMeasurements'', Some ''BodyFatPercentage''),
      (''HKQuantityTypeIdentifierLeanBodyMass'', Kilograms, ''BodyMeasurements'', Some ''LeanBodyMass''),
      (''HKQuantityTypeIdentifierStepCount'', Count, ''Activity'', Some ''StepCount''),
      (''HKQuantityTypeIdentifierDistanceWalkingRunning'', Kilometers, ''Activity'', Some ''WalkingRunningDistance''),
      (''HKQuantityTypeIdentifierBasalEnergyBurned'', KCal, ''Activity'', Some ''RestingEnergy''),
      (''HKQuantityTypeIdentifierActiveEnergyBurned'', KCal, ''Activity'', Some ''ActiveEnergy''),
      (''HKQuantityTypeIdentifierFlightsClimbed'', Count, ''Activity'', Some ''FlightClimbed''),
      (''HKQuantityTypeIdentifierDietaryFatTotal'', Grams, ''Diet'', Some ''TotalFatConsumed''),
      (''HKQuantityTypeIdentifierDietaryFatSaturated'', Grams, ''Diet'', Some ''SaturatedFatConsumed''),
      (''HKQuantityTypeIdentifierDietaryCholesterol'', Milligrams, ''Diet'', Some ''CholesterolConsumed''),
      (''HKQuantityTypeIdentifierDietarySodium'', Milligrams, ''Diet'', Some ''SodiumConsumed''),
      (''HKQuantityTypeIdentifierDietaryCarbohydrates'', Grams, ''Diet'', Some ''CarbohydratesConsumed''),
      (''HKQuantityTypeIdentifierDietaryFiber'', Grams, ''Diet'', Some ''FiberConsumed''),
      (''HKQuantityTypeIdentifierAppleExerciseTime'', Minutes, ''TimeTracking'', Some ''ExerciseTime''),
      (''HKQuantityTypeIdentifierDietaryCaffeine'', Milligrams, ''Diet'', Some ''CaffeineConsumed''),
      (''HKQuantityTypeIdentifierDistanceCycling'', Kilometers, ''Activity'', Some ''DistanceCycling''),
      (''HKQuantityTypeIdentifierRestingHeartRate'', CountsPerMinute, ''BodyMeasurements'', Some ''RestingHeartRate''),
      (''HKQuantityTypeIdentifierVO2Max'', MillilitersPerKilogramMinute, ''BodyMeasurements'', Some ''VO2Max''),
      (''HKQuantityTypeIdentifierWalkingHeartRateAverage'', CountsPerMinute, ''BodyMeasurements'', Some ''WalkingHeartRateAvg''),
      (''HKCategoryTypeIdentifierSleepAnalysis'', SleepAnalysis, ''Activity'', None),
      (''HKCategoryTypeIdentifierAppleStandHour'', StandHour, ''Activity'', None),
      (''HKCategoryTypeIdentifierSexualActivity'', CountableEvent, ''Activity'', Some ''SexualActivityCount''),
      (''HKCategoryTypeIdentifierMindfulSession'', Duration, ''TimeTracking'', Some ''MindfulnessTime''),
      (''HKQuantityTypeIdentifierHeartRateVariabilitySDNN'', Milliseconds, ''BodyMeasurements'', Some ''HeartRateVariability''),
      (''HKQuantityTypeIdentifierDietarySugar'', Grams, ''Diet'', Some ''SugarConsumed''),
      (''HKQuantityTypeIdentifierDietaryEnergyConsumed'', KCal, ''Diet'', Some ''CaloriesConsumed''),
      (''HKQuantityTypeIdentifierDietaryProtein'', Grams, ''Diet'', Some ''ProteinConsumed''),
      (''HKQuantityTypeIdentifierDietaryPotassium'', Milligrams, ''Diet'', Some ''PotassiumConsumed'')]"

definition classify :: "string \<Rightarrow> (consumer \<times> string \<times> string option) option" where
  "classify t = map_of conversion_rules t"


text \<open>The unit a rule expects the record to declare (the empty string: none).\<close>

fun rule_unit :: "consumer \<Rightarrow> string" where
  "rule_unit Count = ''count''"
| "rule_unit BodyMassIndex = ''count''"
| "rule_unit Percentage = ''%''"
| "rule_unit CountsPerMinute = ''count/min''"
| "rule_unit MillilitersPerKilogramMinute = unit_mL_per_min_kg"
| "rule_unit KCal = ''kcal''"
| "rule_unit Kilometers = ''km''"
| "rule_unit Centimeters = ''cm''"
| "rule_unit Milliliters = ''mL''"
| "rule_unit Kilograms = ''kg''"
| "rule_unit Grams = ''g''"
| "rule_unit Milligrams = ''mg''"
| "rule_unit Minutes = ''min''"
| "rule_unit Milliseconds = ''ms''"
| "rule_unit Duration = []"
| "rule_unit SleepAnalysis = []"
| "rule_unit StandHour = []"
| "rule_unit CountableEvent = []"

definition expected_unit :: "string \<Rightarrow> string option" where
  "expected_unit t = map_option (\<lambda>(c, f, n). rule_unit c) (classify t)"

text \<open>The checks a rule makes on the record before it reads anything else.\<close>

fun rule_check :: "consumer \<Rightarrow> RecordAttributes \<Rightarrow> failure option" where
  "rule_check Count this =
     (if attr_unit this \<noteq> ''count'' then Some (UnitCheck ''count'') else None)"
| "rule_check BodyMassIndex this =
     (if attr_unit this \<noteq> ''count'' then Some (UnitCheck ''count'') else None)"
| "rule_check Percentage this =
     (if attr_unit this \<noteq> ''%'' then Some ExpectedPercent else None)"
| "rule_check CountsPerMinute this =
     (if attr_unit this \<noteq> ''count/min'' then Some (UnitCheck ''count/min'') else None)"
| "rule_check MillilitersPerKilogramMinute this =
     (if attr_unit this \<noteq> unit_mL_per_min_kg then Some (UnitCheck unit_mL_per_min_kg) else None)"
| "rule_check KCal this =
     (if attr_unit this \<noteq> ''kcal'' then Some (UnitCheck ''kcal'') else None)"
| "rule_check Kilometers this =
     (if attr_unit this \<noteq> ''km'' then Some (UnitCheck ''km'') else None)"
| "rule_check Centimeters this =
     (if attr_unit this \<noteq> ''cm'' then Some (UnitCheck ''cm'') else None)"
| "rule_check Milliliters this =
     (if attr_unit this \<noteq> ''mL'' then Some (UnitCheck ''mL'') else None)"
| "rule_check Kilograms this =
     (if attr_unit this \<noteq> ''kg'' then Some (UnitCheck ''kg'') else None)"
| "rule_check Grams this =
     (if attr_unit this \<noteq> ''g'' then Some (UnitCheck ''g'') else None)"
| "rule_check Milligrams this =
     (if attr_unit this \<noteq> ''mg'' then Some (UnitCheck ''mg'') else None)"
| "rule_check Minutes this =
     (if attr_unit this \<noteq> ''min'' then Some (UnitCheck ''min'') else None)"
| "rule_check Milliseconds this =
     (if attr_unit this \<noteq> ''ms'' then Some (UnitCheck ''ms'') else None)"
| "rule_check Duration this =
     (if attr_value this \<noteq> [] then Some ValueNotEmpty
      else if attr_unit this \<noteq> [] then Some UnitNotEmpty else None)"
| "rule_check SleepAnalysis this =
     (if attr_unit this \<noteq> [] then Some UnitNotEmpty else None)"
| "rule_check StandHour this =
     (if attr_unit this \<noteq> [] then Some UnitNotEmpty else None)"
| "rule_check CountableEvent this =
     (if attr_unit this \<noteq> [] then Some UnitNotEmpty else None)"

text \<open>The canonical unit a rule converts to.\<close>

fun rule_target_unit :: "consumer \<Rightarrow> string" where
  "rule_target_unit Count = ''count''"
| "rule_target_unit BodyMassIndex = ''body_mass_index_millis''"
| "rule_target_unit Percentage = ''percentage_millis''"
| "rule_target_unit CountsPerMinute = ''beats_per_minute_millis''"
| "rule_target_unit MillilitersPerKilogramMinute = ''milliliters_per_kilogram_per_minute_millis''"
| "rule_target_unit KCal = ''calories''"
| "rule_target_unit Kilometers = ''millimeters''"
| "rule_target_unit Centimeters = ''millimeters''"
| "rule_target_unit Milliliters = ''milliliters''"
| "rule_target_unit Kilograms = ''milligrams''"
| "rule_target_unit Grams = ''milligrams''"
| "rule_target_unit Milligrams = ''milligrams''"
| "rule_target_unit Minutes = ''milliseconds''"
| "rule_target_unit Milliseconds = ''milliseconds''"
| "rule_target_unit Duration = ''milliseconds''"
| "rule_target_unit SleepAnalysis = ''milliseconds''"
| "rule_target_unit StandHour = ''count''"
| "rule_target_unit CountableEvent = ''count''"

text \<open>
  How a rule obtains the value: the integer written in the record; the double
  written in the record, multiplied by the factors of the rule in the order the code
  applies them (the scale factor of the rule is their product: minutes to milliseconds
  is 60 then 1000, that is 60000) and converted to an integer; the time from the
  start date to the end date; or a fixed value.
\<close>

datatype derivation = ParsedInt | ParsedDouble "int list" | DurationOf | FixedValue int

fun rule_derivation :: "consumer \<Rightarrow> derivation" where
  "rule_derivation Count = ParsedInt"
| "rule_derivation BodyMassIndex = ParsedDouble [1000000]"
| "rule_derivation Percentage = ParsedDouble [1000000]"
| "rule_derivation CountsPerMinute = ParsedDouble [1000000]"
| "rule_derivation MillilitersPerKilogramMinute = ParsedDouble [1000000]"
| "rule_derivation KCal = ParsedDouble [1000]"
| "rule_derivation Kilometers = ParsedDouble [1000000]"
| "rule_derivation Centimeters = ParsedDouble [10]"
| "rule_derivation Milliliters = ParsedInt"
| "rule_derivation Kilograms = ParsedDouble [1000000]"
| "rule_derivation Grams = ParsedDouble [1000]"
| "rule_derivation Milligrams = ParsedDouble []"
| "rule_derivation Minutes = ParsedDouble [60, 1000]"
| "rule_derivation Milliseconds = ParsedDouble []"
| "rule_derivation Duration = DurationOf"
| "rule_derivation SleepAnalysis = DurationOf"
| "rule_derivation StandHour = FixedValue 1"
| "rule_derivation CountableEvent = FixedValue 1"

definition scaled :: "double \<Rightarrow> int list \<Rightarrow> double" where
  \<comment> \<open>the parsed value multiplied by the factors, one double multiplication each\<close>
  "scaled d factors = foldl (\<lambda>x k. double_mult x (double_of_int k)) d factors"

fun derive :: "derivation \<Rightarrow> externals \<Rightarrow> RecordAttributes \<Rightarrow> error + int" where
  "derive ParsedInt ext this = ParseIntOrDie (attr_value this)"
| "derive (ParsedDouble factors) ext this =
     (case ParseDoubleOrDie (attr_value this) of
        Inl e \<Rightarrow> Inl e
      | Inr d \<Rightarrow> double_to_int64 (scaled d factors))"
| "derive DurationOf ext this = duration_ms ext this"
| "derive (FixedValue v) ext this = Inr v"


text \<open>The names that the two category rules select from the value of the record.\<close>

definition sleep_analysis_name :: "string \<Rightarrow> string option" where
  "sleep_analysis_name v =
     map_of
       [(''HKCategoryValueSleepAnalysisAsleep'', ''SleepTime''),
        (''HKCategoryValueSleepAnalysisInBed'', ''InBedTime''),
        (''HKCategoryValueSleepAnalysisAwake'', ''AwakeTime'')]
       v"

definition stand_hour_name :: "string \<Rightarrow> string option" where
  "stand_hour_name v =
     map_of
       [(''HKCategoryValueAppleStandHourIdle'', ''IdleHours''),
        (''HKCategoryValueAppleStandHourStood'', ''StandHours'')]
       v"

definition rule_name :: "string option \<Rightarrow> string" where
  "rule_name n = (case n of None \<Rightarrow> [] | Some k \<Rightarrow> k)"

text \<open>
  The name of the destination: the one of the table, or for the two category rules
  the one the value selects, with the failure of a value that selects none.
\<close>

fun destination_name :: "consumer \<Rightarrow> string option \<Rightarrow> string \<Rightarrow> failure + string" where
  "destination_name SleepAnalysis n v =
     (case sleep_analysis_name v of None \<Rightarrow> Inl SleepAnalysisValue | Some k \<Rightarrow> Inr k)"
| "destination_name StandHour n v =
     (case stand_hour_name v of None \<Rightarrow> Inl StandHourValue | Some k \<Rightarrow> Inr k)"
| "destination_name c n v = Inr (rule_name n)"

text \<open>The conversion that the table describes.\<close>

definition convert_by_rule ::
  "consumer \<Rightarrow> string \<Rightarrow> string option \<Rightarrow> externals \<Rightarrow> RecordAttributes \<Rightarrow> Series \<Rightarrow> bool \<Rightarrow> error + Series" where
  "convert_by_rule c f n ext this series_p new_series =
     (case rule_check c this of
        Some x \<Rightarrow> Inl (Fatal x)
      | None \<Rightarrow>
          (case destination_name c n (attr_value this) of
             Inl x \<Rightarrow> Inl (Fatal x)
           | Inr name' \<Rightarrow>
               (case derive (rule_derivation c) ext this of
                  Inl e \<Rightarrow> Inl e
                | Inr v \<Rightarrow>
                    SetMeasurement ext this series_p new_series f name'
                      (DefaultGroup ext (member_function c)) (rule_target_unit c) v)))"

text \<open>The call that \<open>AddMeasurementToSeries\<close> makes for a rule.\<close>

fun consume ::
  "consumer \<Rightarrow> externals \<Rightarrow> RecordAttributes \<Rightarrow> Series \<Rightarrow> bool \<Rightarrow> string \<Rightarrow> string option \<Rightarrow> error + Series" where
  "consume Count ext this series_p new_series f n =
     ConsumeCountOrDie ext this series_p new_series f (rule_name n) (DefaultGroup ext ''ConsumeCountOrDie'')"
| "consume BodyMassIndex ext this series_p new_series f n =
     ConsumeBodyMassIndexOrDie ext this series_p new_series f (rule_name n) (DefaultGroup ext ''ConsumeBodyMassIndexOrDie'')"
| "consume Percentage ext this series_p new_series f n =
     ConsumePercentageOrDie ext this series_p new_series f (rule_name n) (DefaultGroup ext ''ConsumePercentageOrDie'')"
| "consume CountsPerMinute ext this series_p new_series f n =
     ConsumeCountsPerMinuteOrDie ext this series_p new_series f (rule_name n) (DefaultGroup ext ''ConsumeCountsPerMinuteOrDie'')"
| "consume MillilitersPerKilogramMinute ext this series_p new_series f n =
     ConsumeMillilitersPerKilogramMinuteOrDie ext this series_p new_series f (rule_name n) (DefaultGroup ext ''ConsumeMillilitersPerKilogramMinuteOrDie'')"
| "consume KCal ext this series_p new_series f n =
     ConsumeKCalOrDie ext this series_p new_series f (rule_name n) (DefaultGroup ext ''ConsumeKCalOrDie'')"
| "consume Kilometers ext this series_p new_series f n =
     ConsumeKilometersOrDie ext this series_p new_series f (rule_name n) (DefaultGroup ext ''ConsumeKilometersOrDie'')"
| "consume Centimeters ext this series_p new_series f n =
     ConsumeCentimetersOrDie ext this series_p new_series f (rule_name n) (DefaultGroup ext ''ConsumeCentimetersOrDie'')"
| "consume Milliliters ext this series_p new_series f n =
     ConsumeMillilitersOrDie ext this series_p new_series f (rule_name n) (DefaultGroup ext ''ConsumeMillilitersOrDie'')"
| "consume Kilograms ext this series_p new_series f n =
     ConsumeKilogramsOrDie ext this series_p new_series f (rule_name n) (DefaultGroup ext ''ConsumeKilogramsOrDie'')"
| "consume Grams ext this series_p new_series f n =
     ConsumeGramsOrDie ext this series_p new_series f (rule_name n) (DefaultGroup ext ''ConsumeGramsOrDie'')"
| "consume Milligrams ext this series_p new_series f n =
     ConsumeMilligramsOrDie ext this series_p new_series f (rule_name n) (DefaultGroup ext ''ConsumeMilligramsOrDie'')"
| "consume Minutes ext this series_p new_series f n =
     ConsumeMinutesOrDie ext this series_p new_series f (rule_name n) (DefaultGroup ext ''ConsumeMinutesOrDie'')"
| "consume Milliseconds ext this series_p new_series f n =
     ConsumeMillisecondsOrDie ext this series_p new_series f (rule_name n) (DefaultGroup ext ''ConsumeMillisecondsOrDie'')"
| "consume Duration ext this series_p new_series f n =
     ConsumeDurationOrDie ext this series_p new_series f (rule_name n) (DefaultGroup ext ''ConsumeDurationOrDie'')"
| "consume SleepAnalysis ext this series_p new_series f n =
     ConsumeSleepAnalysisOrDie ext this series_p new_series f (DefaultGroup ext ''ConsumeSleepAnalysisOrDie'')"
| "consume StandHour ext this series_p new_series f n =
     ConsumeStandHourOrDie ext this series_p new_series f (DefaultGroup ext ''ConsumeStandHourOrDie'')"
| "consume CountableEvent ext this series_p new_series f n =
     ConsumeCountableEventOrDie ext this series_p new_series f (rule_name n) (DefaultGroup ext ''ConsumeCountableEventOrDie'')"

section \<open>An instance of the collaborators for worked examples\<close>

text \<open>
  Modelled from the spec: the date parser of sections 4.1 and 6, reading the fixed
  format \<open>YYYY-MM-DD HH:MM:SS +HHMM\<close> strictly (fixed widths, fields in range) into the
  instant it denotes. It stands for \<open>absl::ParseTime\<close> in the examples.
\<close>

definition days_from_civil :: "int \<Rightarrow> int \<Rightarrow> int \<Rightarrow> int" where
  \<comment> \<open>days from 1970-01-01 to the given day of the proleptic Gregorian calendar\<close>
  "days_from_civil y m d =
     (let y' = (if m \<le> 2 then y - 1 else y);
          era = y' div 400;
          yoe = y' - era * 400;
          doy = (153 * (if 2 < m then m - 3 else m + 9) + 2) div 5 + d - 1;
          doe = yoe * 365 + yoe div 4 - yoe div 100 + doy
      in era * 146097 + doe - 719468)"

definition days_in_month :: "int \<Rightarrow> int \<Rightarrow> int" where
  "days_in_month y m =
     (if m = 2 then (if y mod 4 = 0 \<and> (y mod 100 \<noteq> 0 \<or> y mod 400 = 0) then 29 else 28)
      else if m = 4 \<or> m = 6 \<or> m = 9 \<or> m = 11 then 30 else 31)"

definition fixed_format_ParseTime :: "string \<Rightarrow> Time option" where
  "fixed_format_ParseTime s =
     (let num = (\<lambda>i n. digits_value 10 (take n (drop i s)));
          y = num 0 4; m = num 5 2; d = num 8 2;
          hh = num 11 2; mm = num 14 2; ss = num 17 2;
          zh = num 21 2; zm = num 23 2;
          offset = (if s ! 20 = CHR ''-'' then - 1 else 1) * (zh * 3600 + zm * 60)
      in if length s = 25
            \<and> list_all isdigit (take 4 s) \<and> s ! 4 = CHR ''-''
            \<and> list_all isdigit (take 2 (drop 5 s)) \<and> s ! 7 = CHR ''-''
            \<and> list_all isdigit (take 2 (drop 8 s)) \<and> s ! 10 = CHR '' ''
            \<and> list_all isdigit (take 2 (drop 11 s)) \<and> s ! 13 = CHR '':''
            \<and> list_all isdigit (take 2 (drop 14 s)) \<and> s ! 16 = CHR '':''
            \<and> list_all isdigit (take 2 (drop 17 s)) \<and> s ! 19 = CHR '' ''
            \<and> (s ! 20 = CHR ''+'' \<or> s ! 20 = CHR ''-'')
            \<and> list_all isdigit (drop 21 s)
            \<and> 1 \<le> m \<and> m \<le> 12 \<and> 1 \<le> d \<and> d \<le> days_in_month y m
            \<and> hh \<le> 23 \<and> mm \<le> 59 \<and> ss \<le> 59 \<and> zh \<le> 23 \<and> zm \<le> 59
         then Some (UnixSeconds (of_int
                (days_from_civil y m d * 86400 + hh * 3600 + mm * 60 + ss - offset)))
         else None)"

text \<open>
  Modelled from the spec: \<open>phd::ToCamelCase\<close> and the default \<open>group\<close> arguments of the
  header, neither among the translated sources. The specification shows the
  camel-casing on names without separators only, which it leaves as they are
  (\<open>iPhone\<close> gives the source \<open>HealthKit:iPhone\<close>), and one group,
  \<open>BodyMeasurements\<close>, in the example of section 4.4. The instance takes the parser
  above, the identity on such names and that group.
\<close>

definition example_externals :: externals where
  "example_externals =
     \<lparr>ParseTime = fixed_format_ParseTime,
      ToCamelCase = (\<lambda>s. s),
      DefaultGroup = (\<lambda>f. ''BodyMeasurements'')\<rparr>"

text \<open>An element \<open><Record .../>\<close> with the given attributes, and a document of such elements.\<close>

definition xml_record :: "(string \<times> string) list \<Rightarrow> string \<times> ptree" where
  "xml_record attrs =
     (''Record'', Node [] [(''<xmlattr>'', Node [] (map (\<lambda>(k, v). (k, Node v [])) attrs))])"

definition xml_export :: "(string \<times> ptree) list \<Rightarrow> ptree" where
  "xml_export elems = Node [] [(''HealthData'', Node [] elems)]"

definition empty_collection :: SeriesCollection where
  "empty_collection = \<lparr>collection_source = [], series = []\<rparr>"

section \<open>Example records\<close>

definition example_date :: string where
  "example_date = ''2020-01-01 08:00:00 +0000''"

definition mindful_record :: "string \<Rightarrow> RecordAttributes" where
  \<comment> \<open>a mindful session of ten minutes, with the given \<open>value\<close> attribute\<close>
  "mindful_record v =
     \<lparr>attr_type = ''HKCategoryTypeIdentifierMindfulSession'', attr_value = v, attr_unit = [],
      attr_sourceName = ''iPhone'', attr_startDate = example_date,
      attr_endDate = ''2020-01-01 08:10:00 +0000''\<rparr>"

definition body_mass_record :: "string \<Rightarrow> string \<Rightarrow> RecordAttributes" where
  \<comment> \<open>a body mass record with the given unit and value\<close>
  "body_mass_record u v =
     \<lparr>attr_type = ''HKQuantityTypeIdentifierBodyMass'', attr_value = v, attr_unit = u,
      attr_sourceName = ''iPhone'', attr_startDate = example_date, attr_endDate = example_date\<rparr>"



definition exercise_record :: "string \<Rightarrow> RecordAttributes" where
  \<comment> \<open>an exercise time in minutes, with the given \<open>value\<close> attribute\<close>
  "exercise_record v =
     \<lparr>attr_type = ''HKQuantityTypeIdentifierAppleExerciseTime'', attr_value = v, attr_unit = ''min'',
      attr_sourceName = ''Watch'', attr_startDate = example_date, attr_endDate = example_date\<rparr>"

definition step_record :: "string \<Rightarrow> string \<Rightarrow> ptree" where
  \<comment> \<open>the element of a step count record with the given source name and value\<close>
  "step_record src v =
     snd (xml_record
       [(''type'', ''HKQuantityTypeIdentifierStepCount''), (''sourceName'', src),
        (''unit'', ''count''), (''startDate'', example_date), (''endDate'', example_date),
        (''value'', v)])"

definition step_attributes :: "string \<Rightarrow> string \<Rightarrow> RecordAttributes" where
  "step_attributes src v =
     \<lparr>attr_type = ''HKQuantityTypeIdentifierStepCount'', attr_value = v, attr_unit = ''count'',
      attr_sourceName = src, attr_startDate = example_date, attr_endDate = example_date\<rparr>"

definition initial_state :: export_state where
  \<comment> \<open>the state in which the loop of the export starts, for an empty collection\<close>
  "initial_state =
     \<lparr>type_to_series_map = Map.empty, series_collection = empty_collection,
      set_properties_on_series = False\<rparr>"

definition body_mass_attributes :: "(string \<times> string) list" where
  \<comment> \<open>the attributes of the first scenario of section 8 of the specification\<close>
  "body_mass_attributes =
     [(''type'', ''HKQuantityTypeIdentifierBodyMass''), (''unit'', ''kg''), (''value'', ''70.5''),
      (''sourceName'', ''iPhone''), (''startDate'', example_date), (''endDate'', example_date)]"

definition mixed_export :: "(string \<times> ptree) list" where
  \<comment> \<open>an export date, then two step counts with a body mass between them\<close>
  "mixed_export =
     [(''ExportDate'', Node [] []),
      (''Record'', step_record ''iPhone'' ''100''),
      xml_record body_mass_attributes,
      (''Record'', step_record ''Watch'' ''250'')]"

section \<open>Notions used to state the properties\<close>

text \<open>The state after the series of a type has been resolved \<open>N\<close> times in a row.\<close>

definition resolutions :: "string \<Rightarrow> nat \<Rightarrow> export_state \<Rightarrow> export_state" where
  "resolutions t N st = ((\<lambda>s. snd (resolve_series t s)) ^^ N) st"

text \<open>
  The body of the loop for one record, once its attributes are extracted; the
  records of an export, in order; and the measurement that a record yields, which is
  the one it adds to a new series.
\<close>

definition process_record :: "externals \<Rightarrow> RecordAttributes \<Rightarrow> export_state \<Rightarrow> error + export_state" where
  "process_record ext record st =
     (let (series_p, st') = resolve_series (attr_type record) st;
          collection = series_collection st'
      in case AddMeasurementToSeries ext record (series collection ! series_p)
                (set_properties_on_series st') of
           Inl e \<Rightarrow> Inl e
         | Inr s \<Rightarrow>
             Inr (st'\<lparr>series_collection := collection\<lparr>series := (series collection)[series_p := s]\<rparr>\<rparr>))"

definition extracted_records :: "(string \<times> ptree) list \<Rightarrow> RecordAttributes list" where
  "extracted_records elems =
     List.map_filter
       (\<lambda>elem. if fst elem = ''Record''
                then (case CreateFromXmlRecord (snd elem) of Inl e \<Rightarrow> None | Inr r \<Rightarrow> Some r)
                else None)
       elems"

definition records_of_type :: "string \<Rightarrow> (string \<times> ptree) list \<Rightarrow> RecordAttributes list" where
  "records_of_type t elems = filter (\<lambda>r. attr_type r = t) (extracted_records elems)"

definition own_measurement :: "externals \<Rightarrow> RecordAttributes \<Rightarrow> Measurement \<Rightarrow> bool" where
  "own_measurement ext r m \<longleftrightarrow>
     (case AddMeasurementToSeries ext r new_Series True of
        Inl e \<Rightarrow> False
      | Inr s \<Rightarrow> measurement s = [m])"

text \<open>
  What the loop keeps true of its registry: every registered series is one that
  the run added to the collection (which had \<open>base\<close> series), no two types share a
  series, and the run added one series for each registered type.
\<close>

definition registry_ok :: "nat \<Rightarrow> export_state \<Rightarrow> bool" where
  "registry_ok base st \<longleftrightarrow>
     (\<forall>t i. type_to_series_map st t = Some i \<longrightarrow>
        base \<le> i \<and> i < length (series (series_collection st)))
     \<and> inj_on (type_to_series_map st) (dom (type_to_series_map st))
     \<and> finite (dom (type_to_series_map st))
     \<and> length (series (series_collection st)) = base + card (dom (type_to_series_map st))"


section \<open>The code computes what the table says\<close>

text \<open>One step of the chain of comparisons is one entry of the table.\<close>

lemma dispatch_step:
  assumes "a = g r" and "rest = (case map_of ps t of None \<Rightarrow> d | Some x \<Rightarrow> g x)"
  shows "(if t = k then a else rest) = (case map_of ((k, r) # ps) t of None \<Rightarrow> d | Some x \<Rightarrow> g x)"
  using assms by auto

lemma AddMeasurementToSeries_classify:
  "AddMeasurementToSeries ext this sp new =
     (case classify (attr_type this) of
        None \<Rightarrow> Inl (Fatal UnhandledType)
      | Some (c, f, n) \<Rightarrow> consume c ext this sp new f n)"
  unfolding AddMeasurementToSeries_def classify_def conversion_rules_def
  by (intro dispatch_step) (simp_all add: rule_name_def)

lemmas consume_defs =
  ConsumeCountOrDie_def ConsumeBodyMassIndexOrDie_def ConsumePercentageOrDie_def
  ConsumeCountsPerMinuteOrDie_def ConsumeMillilitersPerKilogramMinuteOrDie_def
  ConsumeKCalOrDie_def ConsumeKilometersOrDie_def ConsumeCentimetersOrDie_def
  ConsumeMillilitersOrDie_def ConsumeKilogramsOrDie_def ConsumeGramsOrDie_def
  ConsumeMilligramsOrDie_def ConsumeMinutesOrDie_def ConsumeMillisecondsOrDie_def
  ConsumeDurationOrDie_def ConsumeSleepAnalysisOrDie_def ConsumeStandHourOrDie_def
  ConsumeCountableEventOrDie_def

lemma SetMeasurement_Inr_iff:
  "SetMeasurement ext this sp new f n g u v = Inr s \<longleftrightarrow>
     (\<exists>time. ParseTime ext (attr_startDate this) = Some time
        \<and> attr_sourceName this \<noteq> []
        \<and> s = (if new then sp\<lparr>name := n, family := f, unit := u\<rparr> else sp)
               \<lparr>measurement := measurement sp @
                  [\<lparr>ms_since_unix_epoch = unix_millis time, value = v, group = g,
                    source = ''HealthKit:'' @ ToCamelCase ext (attr_sourceName this)\<rparr>]\<rparr>)"
  by (auto simp: SetMeasurement_def ParseDateOrDie_def new_Measurement_def Let_def
           split: option.splits)

lemma consume_convert_by_rule:
  "consume c ext this sp new f n = convert_by_rule c f n ext this sp new"
  by (cases c)
     (simp_all add: consume_defs convert_by_rule_def scaled_def rule_name_def sleep_analysis_name_def
        stand_hour_name_def split: sum.splits)

lemma AddMeasurementToSeries_rule:
  "classify (attr_type this) = Some (c, f, n) \<Longrightarrow>
   AddMeasurementToSeries ext this sp new = convert_by_rule c f n ext this sp new"
  by (simp add: AddMeasurementToSeries_classify consume_convert_by_rule)

lemma AddMeasurementToSeries_unknown:
  "classify (attr_type this) = None \<Longrightarrow>
   AddMeasurementToSeries ext this sp new = Inl (Fatal UnhandledType)"
  by (simp add: AddMeasurementToSeries_classify)

lemma rule_check_unit:
  "attr_unit this \<noteq> rule_unit c \<Longrightarrow> \<exists>x. rule_check c this = Some x"
  by (cases c) simp_all

lemma classify_mindful:
  "classify ''HKCategoryTypeIdentifierMindfulSession'' =
     Some (Duration, ''TimeTracking'', Some ''MindfulnessTime'')"
  by (simp add: classify_def conversion_rules_def)

lemma classify_body_mass:
  "classify ''HKQuantityTypeIdentifierBodyMass'' =
     Some (Kilograms, ''BodyMeasurements'', Some ''Weight'')"
  by (simp add: classify_def conversion_rules_def)

lemma example_date_parses:
  "fixed_format_ParseTime example_date = Some (UnixSeconds 1577865600)"
  unfolding example_date_def by code_simp

section \<open>The double model on known values\<close>

text \<open>
  Values that binary64 arithmetic is known to give: the double nearest to 0.1, three
  times that double (0.30000000000000004), ties rounded to even above \<open>2^53\<close>, and
  the double nearest to \<open>10^23\<close>.
\<close>

lemma binary64_one_tenth:
  "ParseDoubleOrDie ''0.1'' = Inr (Finite (3602879701896397 / 36028797018963968))"
  by code_simp

lemma binary64_three_tenths:
  "double_mult (Finite (3602879701896397 / 36028797018963968)) (double_of_int 3)
     = Finite (1351079888211149 / 4503599627370496)"
  by code_simp

lemma binary64_ties_to_even:
  "round_to_double 9007199254740993 = Finite 9007199254740992
   \<and> round_to_double 9007199254740995 = Finite 9007199254740996"
  by code_simp

lemma binary64_large_decimal:
  "ParseDoubleOrDie ''1e23'' = Inr (Finite 99999999999999991611392)"
  by code_simp

section \<open>The numeric parsers\<close>

lemma isspace_not_NUL: "isspace c \<Longrightarrow> c \<noteq> CHR 0x00"
  by (auto simp: isspace_def)

lemma c_str_leading_space:
  "list_all isspace ws \<Longrightarrow> c_str (ws @ s) = ws @ c_str s"
  unfolding c_str_def
  by (rule takeWhile_append2) (auto simp: list_all_iff isspace_not_NUL)

lemma strtol_leading_space:
  "list_all isspace ws \<Longrightarrow> strtol (ws @ s) = strtol s"
  by (simp add: strtol_def dropWhile_append2 list_all_iff)

lemma strtod_leading_space:
  "list_all isspace ws \<Longrightarrow> strtod (ws @ s) = strtod s"
  by (simp add: strtod_def dropWhile_append2 list_all_iff)

text \<open>
  C9: \<open>ParseIntOrDie\<close> and \<open>ParseDoubleOrDie\<close> are strict about what follows the
  number only. White space before it is skipped, whatever the string (so a string and
  the same string after white space parse alike), and a sign is accepted: \<open>" 42"\<close>
  and \<open>"+42"\<close> give 42, while \<open>"42 "\<close> is refused.
\<close>

theorem parsers_accept_leading_space_and_sign:
  assumes "list_all isspace ws"
  shows "ParseIntOrDie (ws @ s) = ParseIntOrDie s
       \<and> ParseDoubleOrDie (ws @ s) = ParseDoubleOrDie s
       \<and> ParseIntOrDie '' 42'' = Inr 42 \<and> ParseIntOrDie ''+42'' = Inr 42
       \<and> ParseDoubleOrDie '' 42'' = Inr (Finite 42) \<and> ParseDoubleOrDie ''+42'' = Inr (Finite 42)
       \<and> ParseIntOrDie ''42 '' = Inl (Fatal NotAnInteger)
       \<and> ParseDoubleOrDie ''42 '' = Inl (Fatal NotADouble)"
proof -
  have "ParseIntOrDie (ws @ s) = ParseIntOrDie s"
    using assms by (simp add: ParseIntOrDie_def c_str_leading_space strtol_leading_space)
  moreover have "ParseDoubleOrDie (ws @ s) = ParseDoubleOrDie s"
    using assms by (simp add: ParseDoubleOrDie_def c_str_leading_space strtod_leading_space)
  moreover have "ParseIntOrDie '' 42'' = Inr 42" by code_simp
  moreover have "ParseIntOrDie ''+42'' = Inr 42" by code_simp
  moreover have "ParseDoubleOrDie '' 42'' = Inr (Finite 42)" by code_simp
  moreover have "ParseDoubleOrDie ''+42'' = Inr (Finite 42)" by code_simp
  moreover have "ParseIntOrDie ''42 '' = Inl (Fatal NotAnInteger)" by code_simp
  moreover have "ParseDoubleOrDie ''42 '' = Inl (Fatal NotADouble)" by code_simp
  ultimately show ?thesis by simp
qed

theorem parsers_accept_leading_space_and_sign_witness:
  "list_all isspace [CHR 0x09, CHR '' '']
   \<and> ParseIntOrDie ([CHR 0x09, CHR '' ''] @ ''-17'') = Inr (- 17)
   \<and> ParseDoubleOrDie ([CHR 0x09, CHR '' ''] @ ''-17'') = Inr (Finite (- 17))"
proof -
  have h: "list_all isspace [CHR 0x09, CHR '' '']"
    by (simp add: isspace_def)
  have i: "ParseIntOrDie ''-17'' = Inr (- 17)" by code_simp
  have d: "ParseDoubleOrDie ''-17'' = Inr (Finite (- 17))" by code_simp
  from parsers_accept_leading_space_and_sign [OF h, of "''-17''"] h i d show ?thesis
    by simp
qed

section \<open>Attribute extraction\<close>







section \<open>What a successful conversion writes\<close>

lemma convert_by_rule_Inr_iff:
  "convert_by_rule c f n ext this sp new = Inr s \<longleftrightarrow>
     rule_check c this = None
     \<and> (\<exists>nm v time.
           destination_name c n (attr_value this) = Inr nm
         \<and> derive (rule_derivation c) ext this = Inr v
         \<and> ParseTime ext (attr_startDate this) = Some time
         \<and> attr_sourceName this \<noteq> []
         \<and> s = (if new then sp\<lparr>name := nm, family := f, unit := rule_target_unit c\<rparr> else sp)
               \<lparr>measurement := measurement sp @
                  [\<lparr>ms_since_unix_epoch = unix_millis time, value = v,
                    group = DefaultGroup ext (member_function c),
                    source = ''HealthKit:'' @ ToCamelCase ext (attr_sourceName this)\<rparr>]\<rparr>)"
  by (auto simp: convert_by_rule_def SetMeasurement_Inr_iff split: option.splits sum.splits)

lemma AddMeasurementToSeries_Inr_iff:
  "AddMeasurementToSeries ext this sp new = Inr s \<longleftrightarrow>
     (\<exists>c f n. classify (attr_type this) = Some (c, f, n)
        \<and> convert_by_rule c f n ext this sp new = Inr s)"
  by (auto simp: AddMeasurementToSeries_classify consume_convert_by_rule split: option.splits)

lemma AddMeasurementToSeries_appends:
  assumes "AddMeasurementToSeries ext this sp new = Inr s"
  shows "attr_sourceName this \<noteq> []
       \<and> (\<exists>m. measurement s = measurement sp @ [m]
              \<and> source m = ''HealthKit:'' @ ToCamelCase ext (attr_sourceName this))
       \<and> (\<not> new \<longrightarrow> name s = name sp \<and> family s = family sp \<and> unit s = unit sp)"
  using assms
  by (auto simp: AddMeasurementToSeries_Inr_iff convert_by_rule_Inr_iff)

lemma SetMeasurement_error:
  "SetMeasurement ext this sp new f n g u v = Inl e \<Longrightarrow> is_fatal e"
  by (auto simp: SetMeasurement_def ParseDateOrDie_def Let_def split: option.splits if_splits)

lemma derive_error:
  "derive d ext this = Inl e \<Longrightarrow> is_fatal e \<or> e = Undefined"
proof (cases d)
  case ParsedInt
  assume "derive d ext this = Inl e"
  with ParsedInt show ?thesis
    by (auto simp: ParseIntOrDie_def split: option.splits if_splits)
next
  case (ParsedDouble factors)
  assume "derive d ext this = Inl e"
  with ParsedDouble show ?thesis
    by (cases "scaled (projr (ParseDoubleOrDie (attr_value this))) factors")
       (auto simp: ParseDoubleOrDie_def split: option.splits if_splits sum.splits)
next
  case DurationOf
  assume "derive d ext this = Inl e"
  with DurationOf show ?thesis
    by (auto simp: duration_ms_def ParseDateOrDie_def int64_sub_def
             split: option.splits if_splits sum.splits)
next
  case (FixedValue v)
  assume "derive d ext this = Inl e"
  with FixedValue show ?thesis by simp
qed

lemma AddMeasurementToSeries_error:
  assumes "AddMeasurementToSeries ext this sp new = Inl e"
  shows "is_fatal e \<or> e = Undefined"
proof (cases "classify (attr_type this)")
  case None
  with assms show ?thesis by (auto simp: AddMeasurementToSeries_unknown)
next
  case (Some r)
  obtain c f n where r: "r = (c, f, n)" by (cases r)
  with Some assms have "convert_by_rule c f n ext this sp new = Inl e"
    by (simp add: AddMeasurementToSeries_rule)
  then show ?thesis
    by (auto simp: convert_by_rule_def split: option.splits sum.splits
             dest: derive_error SetMeasurement_error)
qed

lemma rule_check_sourceName [simp]:
  "rule_check c (this\<lparr>attr_sourceName := x\<rparr>) = rule_check c this"
  by (cases c) simp_all

lemma derive_sourceName [simp]:
  "derive d ext (this\<lparr>attr_sourceName := x\<rparr>) = derive d ext this"
  by (cases d) (simp_all add: duration_ms_def split: sum.splits)

lemma blank_sourceName:
  assumes "AddMeasurementToSeries ext (this\<lparr>attr_sourceName := x\<rparr>) sp new = Inr s"
  shows "AddMeasurementToSeries ext (this\<lparr>attr_sourceName := []\<rparr>) sp new = Inl (Fatal SourceNameEmpty)"
proof -
  from assms obtain c f n where
    c: "classify (attr_type this) = Some (c, f, n)" and
    ok: "convert_by_rule c f n ext (this\<lparr>attr_sourceName := x\<rparr>) sp new = Inr s"
    by (auto simp: AddMeasurementToSeries_Inr_iff)
  from ok have "convert_by_rule c f n ext (this\<lparr>attr_sourceName := []\<rparr>) sp new
      = Inl (Fatal SourceNameEmpty)"
    by (auto simp: convert_by_rule_Inr_iff convert_by_rule_def SetMeasurement_def
          ParseDateOrDie_def Let_def split: option.splits sum.splits)
  with c show ?thesis
    by (simp add: AddMeasurementToSeries_rule)
qed

section \<open>The source of a measurement\<close>

text \<open>
  C8: the source of every measurement produced is \<open>"HealthKit:"\<close> followed by the
  camel-cased source name of its record. A record without a source name yields no
  measurement: the run stops with an error, and for a record that is converted when
  it has a source name, that error is the fatal check on the source name. (The only
  other way to stop is earlier, in a fatal check or in a value conversion whose
  behaviour C++ leaves undefined.)
\<close>

theorem source_is_health_kit_and_camel_case_name:
  "(\<forall>s. AddMeasurementToSeries ext this sp new = Inr s \<longrightarrow>
        attr_sourceName this \<noteq> []
      \<and> (\<exists>m. measurement s = measurement sp @ [m]
             \<and> source m = ''HealthKit:'' @ ToCamelCase ext (attr_sourceName this)))
   \<and> (attr_sourceName this = [] \<longrightarrow>
        (\<exists>e. AddMeasurementToSeries ext this sp new = Inl e \<and> (is_fatal e \<or> e = Undefined)))
   \<and> (\<forall>x s. AddMeasurementToSeries ext (this\<lparr>attr_sourceName := x\<rparr>) sp new = Inr s \<longrightarrow>
        AddMeasurementToSeries ext (this\<lparr>attr_sourceName := []\<rparr>) sp new
          = Inl (Fatal SourceNameEmpty))"
proof (intro conjI allI impI)
  fix s
  assume "AddMeasurementToSeries ext this sp new = Inr s"
  from AddMeasurementToSeries_appends [OF this]
  show "attr_sourceName this \<noteq> []"
    and "\<exists>m. measurement s = measurement sp @ [m]
             \<and> source m = ''HealthKit:'' @ ToCamelCase ext (attr_sourceName this)"
    by blast+
next
  assume empty: "attr_sourceName this = []"
  show "\<exists>e. AddMeasurementToSeries ext this sp new = Inl e \<and> (is_fatal e \<or> e = Undefined)"
  proof (cases "AddMeasurementToSeries ext this sp new")
    case (Inl e)
    with AddMeasurementToSeries_error [OF Inl] show ?thesis by blast
  next
    case (Inr s)
    from AddMeasurementToSeries_appends [OF Inr] empty show ?thesis by blast
  qed
next
  fix x s
  assume "AddMeasurementToSeries ext (this\<lparr>attr_sourceName := x\<rparr>) sp new = Inr s"
  then show "AddMeasurementToSeries ext (this\<lparr>attr_sourceName := []\<rparr>) sp new
          = Inl (Fatal SourceNameEmpty)"
    by (rule blank_sourceName)
qed

lemma body_mass_example_conversion:
  "AddMeasurementToSeries example_externals (body_mass_record ''kg'' ''70.5'') new_Series True
     = Inr \<lparr>name = ''Weight'', family = ''BodyMeasurements'', unit = ''milligrams'',
            measurement =
              [\<lparr>ms_since_unix_epoch = 1577865600000, value = 70500000,
                group = ''BodyMeasurements'', source = ''HealthKit:iPhone''\<rparr>]\<rparr>"
  by code_simp

text \<open>The body mass record of the first scenario, with and without its source name.\<close>

theorem source_is_health_kit_and_camel_case_name_witness:
  "AddMeasurementToSeries example_externals (body_mass_record ''kg'' ''70.5'') new_Series True
     = Inr \<lparr>name = ''Weight'', family = ''BodyMeasurements'', unit = ''milligrams'',
            measurement =
              [\<lparr>ms_since_unix_epoch = 1577865600000, value = 70500000,
                group = ''BodyMeasurements'', source = ''HealthKit:iPhone''\<rparr>]\<rparr>
   \<and> attr_sourceName (body_mass_record ''kg'' ''70.5'') = ''iPhone''
   \<and> AddMeasurementToSeries example_externals
         ((body_mass_record ''kg'' ''70.5'')\<lparr>attr_sourceName := []\<rparr>) new_Series True
       = Inl (Fatal SourceNameEmpty)"
proof -
  have same: "(body_mass_record ''kg'' ''70.5'')\<lparr>attr_sourceName := ''iPhone''\<rparr>
      = body_mass_record ''kg'' ''70.5''"
    by (simp add: body_mass_record_def)
  from source_is_health_kit_and_camel_case_name
         [of example_externals "body_mass_record ''kg'' ''70.5''" new_Series True]
       body_mass_example_conversion same
  have "AddMeasurementToSeries example_externals
         ((body_mass_record ''kg'' ''70.5'')\<lparr>attr_sourceName := []\<rparr>) new_Series True
       = Inl (Fatal SourceNameEmpty)"
    by metis
  with body_mass_example_conversion show ?thesis
    by (simp add: body_mass_record_def)
qed

section \<open>Sleep analysis\<close>







section \<open>Classification\<close>








section \<open>Scaled values\<close>










text \<open>
  The product is also rounded as a double before it is truncated: 583.477 minutes
  are 35008620 milliseconds, and the value stored is 35008619.
\<close>

lemma exercise_example_conversion:
  "AddMeasurementToSeries example_externals (exercise_record ''583.477'') new_Series True
     = Inr \<lparr>name = ''ExerciseTime'', family = ''TimeTracking'', unit = ''milliseconds'',
            measurement =
              [\<lparr>ms_since_unix_epoch = 1577865600000, value = 35008619,
                group = ''BodyMeasurements'', source = ''HealthKit:Watch''\<rparr>]\<rparr>"
  by code_simp

section \<open>The first scenario\<close>

lemma body_mass_attributes_extracted:
  "CreateFromXmlRecord (snd (xml_record body_mass_attributes)) = Inr (body_mass_record ''kg'' ''70.5'')"
  by code_simp

lemma parse_body_mass_value:
  "ParseDoubleOrDie ''70.5'' = Inr (Finite (141 / 2))"
  by code_simp

lemma scale_body_mass_value:
  "double_to_int64 (double_mult (Finite (141 / 2)) (double_of_int 1000000)) = Inr 70500000"
  by code_simp

lemma example_date_millis:
  "unix_millis (UnixSeconds 1577865600) = 1577865600000"
  by code_simp

text \<open>
  C1: an export with the one record \<open>type="HKQuantityTypeIdentifierBodyMass"\<close>,
  \<open>unit="kg"\<close>, \<open>value="70.5"\<close>, \<open>sourceName="iPhone"\<close>, start and end date
  \<open>"2020-01-01 08:00:00 +0000"\<close> gives one series with family \<open>BodyMeasurements\<close>,
  name \<open>Weight\<close> and unit \<open>milligrams\<close>, holding one measurement with value 70500000,
  group \<open>BodyMeasurements\<close>, source \<open>HealthKit:iPhone\<close> and the time 1577865600000,
  the milliseconds from the epoch to 2020-01-01T08:00:00Z. This holds for every
  collaborator that reads the date as the fixed format does, camel-cases \<open>iPhone\<close> to
  itself and declares \<open>BodyMeasurements\<close> as the default group of
  \<open>ConsumeKilogramsOrDie\<close>.
\<close>

theorem body_mass_record_becomes_weight_measurement:
  assumes "ParseTime ext ''2020-01-01 08:00:00 +0000''
             = fixed_format_ParseTime ''2020-01-01 08:00:00 +0000''"
      and "ToCamelCase ext ''iPhone'' = ''iPhone''"
      and "DefaultGroup ext ''ConsumeKilogramsOrDie'' = ''BodyMeasurements''"
  shows "ProcessHealthKitXmlExport ext
           (xml_export
              [xml_record
                 [(''type'', ''HKQuantityTypeIdentifierBodyMass''), (''unit'', ''kg''),
                  (''value'', ''70.5''), (''sourceName'', ''iPhone''),
                  (''startDate'', ''2020-01-01 08:00:00 +0000''),
                  (''endDate'', ''2020-01-01 08:00:00 +0000'')]])
           empty_collection
         = Inr \<lparr>collection_source = [],
                series =
                  [\<lparr>name = ''Weight'', family = ''BodyMeasurements'', unit = ''milligrams'',
                    measurement =
                      [\<lparr>ms_since_unix_epoch = 1577865600000, value = 70500000,
                        group = ''BodyMeasurements'', source = ''HealthKit:iPhone''\<rparr>]\<rparr>]\<rparr>"
proof -
  have time: "ParseTime ext example_date = Some (UnixSeconds 1577865600)"
    using assms(1) example_date_parses by (simp add: example_date_def)
  have conv: "AddMeasurementToSeries ext (body_mass_record ''kg'' ''70.5'') new_Series True
      = Inr \<lparr>name = ''Weight'', family = ''BodyMeasurements'', unit = ''milligrams'',
             measurement =
               [\<lparr>ms_since_unix_epoch = 1577865600000, value = 70500000,
                 group = ''BodyMeasurements'', source = ''HealthKit:iPhone''\<rparr>]\<rparr>"
    using time assms(2,3)
    by (simp add: AddMeasurementToSeries_rule [of _ Kilograms "''BodyMeasurements''" "Some ''Weight''"]
          classify_body_mass body_mass_record_def convert_by_rule_def rule_name_def scaled_def
          parse_body_mass_value scale_body_mass_value SetMeasurement_def ParseDateOrDie_def
          example_date_millis new_Measurement_def new_Series_def
        del: unix_millis.simps)
  have attrs: "[(''type'', ''HKQuantityTypeIdentifierBodyMass''), (''unit'', ''kg''),
                  (''value'', ''70.5''), (''sourceName'', ''iPhone''),
                  (''startDate'', ''2020-01-01 08:00:00 +0000''),
                  (''endDate'', ''2020-01-01 08:00:00 +0000'')] = body_mass_attributes"
    by (simp add: body_mass_attributes_def example_date_def)
  have elem: "xml_record body_mass_attributes = (''Record'', snd (xml_record body_mass_attributes))"
    by (simp add: xml_record_def)
  show ?thesis
    unfolding attrs
    by (subst elem)
       (simp add: ProcessHealthKitXmlExport_def xml_export_def body_mass_attributes_extracted
          resolve_series_def FindOrAdd_def add_series_callback_def empty_collection_def conv
          body_mass_record_def [symmetric])
qed

text \<open>The example collaborators are such an instance.\<close>

theorem body_mass_record_becomes_weight_measurement_witness:
  "ParseTime example_externals ''2020-01-01 08:00:00 +0000''
     = fixed_format_ParseTime ''2020-01-01 08:00:00 +0000''
   \<and> fixed_format_ParseTime ''2020-01-01 08:00:00 +0000'' = Some (UnixSeconds 1577865600)
   \<and> ToCamelCase example_externals ''iPhone'' = ''iPhone''
   \<and> DefaultGroup example_externals ''ConsumeKilogramsOrDie'' = ''BodyMeasurements''
   \<and> ProcessHealthKitXmlExport example_externals
           (xml_export
              [xml_record
                 [(''type'', ''HKQuantityTypeIdentifierBodyMass''), (''unit'', ''kg''),
                  (''value'', ''70.5''), (''sourceName'', ''iPhone''),
                  (''startDate'', ''2020-01-01 08:00:00 +0000''),
                  (''endDate'', ''2020-01-01 08:00:00 +0000'')]])
           empty_collection
         = Inr \<lparr>collection_source = [],
                series =
                  [\<lparr>name = ''Weight'', family = ''BodyMeasurements'', unit = ''milligrams'',
                    measurement =
                      [\<lparr>ms_since_unix_epoch = 1577865600000, value = 70500000,
                        group = ''BodyMeasurements'', source = ''HealthKit:iPhone''\<rparr>]\<rparr>]\<rparr>"
proof -
  have h1: "ParseTime example_externals ''2020-01-01 08:00:00 +0000''
     = fixed_format_ParseTime ''2020-01-01 08:00:00 +0000''"
    by (simp add: example_externals_def)
  have h2: "ToCamelCase example_externals ''iPhone'' = ''iPhone''"
    by (simp add: example_externals_def)
  have h3: "DefaultGroup example_externals ''ConsumeKilogramsOrDie'' = ''BodyMeasurements''"
    by (simp add: example_externals_def)
  from body_mass_record_becomes_weight_measurement [OF h1 h2 h3] h1 h2 h3
       example_date_parses [unfolded example_date_def]
  show ?thesis
    by blast
qed

section \<open>One series for each record type\<close>

lemma resolve_series_fresh:
  assumes "t \<notin> dom (type_to_series_map st)"
  shows "resolve_series t st =
           (length (series (series_collection st)),
            st\<lparr>set_properties_on_series := True,
               series_collection := (series_collection st)
                 \<lparr>series := series (series_collection st) @ [new_Series]\<rparr>,
               type_to_series_map := (type_to_series_map st)(t \<mapsto> length (series (series_collection st)))\<rparr>)"
  using assms
  by (auto simp: resolve_series_def FindOrAdd_def add_series_callback_def Let_def
           split: option.splits)

lemma resolve_series_known:
  assumes "type_to_series_map st t = Some i"
  shows "resolve_series t st = (i, st\<lparr>set_properties_on_series := False\<rparr>)"
  using assms by (simp add: resolve_series_def FindOrAdd_def)

lemma resolutions_Suc:
  "resolutions t (Suc k) st = snd (resolve_series t (resolutions t k st))"
  by (simp add: resolutions_def)

lemma resolutions_fresh:
  assumes "t \<notin> dom (type_to_series_map st)"
  shows "resolutions t (Suc k) st =
           st\<lparr>set_properties_on_series := (k = 0),
              series_collection := (series_collection st)
                \<lparr>series := series (series_collection st) @ [new_Series]\<rparr>,
              type_to_series_map := (type_to_series_map st)(t \<mapsto> length (series (series_collection st)))\<rparr>"
proof (induction k)
  case 0
  show ?case
    by (simp add: resolutions_def resolve_series_fresh [OF assms] fun_upd_def)
next
  case (Suc k)
  show ?case
    by (subst resolutions_Suc) (simp add: Suc.IH resolve_series_known fun_upd_def)
qed

lemma resolutions_properties:
  assumes "t \<notin> dom (type_to_series_map st)" and "1 \<le> N"
  shows "series (series_collection (resolutions t N st))
           = series (series_collection st) @ [new_Series]
       \<and> (\<forall>k<N. fst (resolve_series t (resolutions t k st)) = length (series (series_collection st))
                \<and> set_properties_on_series (snd (resolve_series t (resolutions t k st))) = (k = 0))"
proof -
  from assms(2) obtain n where N: "N = Suc n"
    by (cases N) auto
  have first: "series (series_collection (resolutions t N st))
           = series (series_collection st) @ [new_Series]"
    by (simp add: N resolutions_fresh [OF assms(1)])
  have each: "fst (resolve_series t (resolutions t k st)) = length (series (series_collection st))
                \<and> set_properties_on_series (snd (resolve_series t (resolutions t k st))) = (k = 0)" for k
  proof (cases k)
    case 0
    then show ?thesis
      by (simp add: resolutions_def resolve_series_fresh [OF assms(1)])
  next
    case (Suc j)
    then show ?thesis
      by (simp add: resolutions_fresh [OF assms(1)] resolve_series_known)
  qed
  from first each show ?thesis by blast
qed

text \<open>The loop, one record at a time.\<close>

lemma process_elements_Cons:
  "process_elements ext (elem # elems) st =
     (if fst elem \<noteq> ''Record'' then process_elements ext elems st
      else
        case CreateFromXmlRecord (snd elem) of
          Inl e \<Rightarrow> Inl e
        | Inr r \<Rightarrow>
            (case process_record ext r st of
               Inl e \<Rightarrow> Inl e
             | Inr st1 \<Rightarrow> process_elements ext elems st1))"
  by (simp add: process_record_def Let_def split: sum.splits prod.splits)

lemma extracted_records_Cons:
  "extracted_records (elem # elems) =
     (if fst elem \<noteq> ''Record'' then extracted_records elems
      else
        case CreateFromXmlRecord (snd elem) of
          Inl e \<Rightarrow> extracted_records elems
        | Inr r \<Rightarrow> r # extracted_records elems)"
  by (simp add: extracted_records_def map_filter_simps split: sum.splits)

lemma process_record_known:
  assumes "type_to_series_map st (attr_type r) = Some i"
      and "process_record ext r st = Inr st1"
  shows "\<exists>S. AddMeasurementToSeries ext r (series (series_collection st) ! i) False = Inr S
           \<and> type_to_series_map st1 = type_to_series_map st
           \<and> series (series_collection st1) = (series (series_collection st))[i := S]"
  using assms
  by (auto simp: process_record_def resolve_series_known Let_def split: sum.splits)

lemma process_record_fresh:
  assumes "attr_type r \<notin> dom (type_to_series_map st)"
      and "process_record ext r st = Inr st1"
  shows "\<exists>S. AddMeasurementToSeries ext r new_Series True = Inr S
           \<and> type_to_series_map st1
               = (type_to_series_map st)(attr_type r \<mapsto> length (series (series_collection st)))
           \<and> series (series_collection st1) = series (series_collection st) @ [S]"
  using assms
  by (auto simp: process_record_def resolve_series_fresh Let_def split: sum.splits)

lemma registry_ok_step:
  assumes "registry_ok base st" and "process_record ext r st = Inr st1"
  shows "registry_ok base st1
       \<and> dom (type_to_series_map st1) = insert (attr_type r) (dom (type_to_series_map st))
       \<and> take base (series (series_collection st1)) = take base (series (series_collection st))"
proof (cases "type_to_series_map st (attr_type r)")
  case None
  then have fresh: "attr_type r \<notin> dom (type_to_series_map st)"
    by (simp add: domIff)
  from process_record_fresh [OF fresh assms(2)] obtain S where
    m: "type_to_series_map st1
          = (type_to_series_map st)(attr_type r \<mapsto> length (series (series_collection st)))" and
    s: "series (series_collection st1) = series (series_collection st) @ [S]"
    by blast
  let ?m = "type_to_series_map st"
  let ?n = "length (series (series_collection st))"
  have ok: "\<forall>t i. ?m t = Some i \<longrightarrow> base \<le> i \<and> i < ?n"
    "inj_on ?m (dom ?m)" "finite (dom ?m)" "?n = base + card (dom ?m)"
    using assms(1) unfolding registry_ok_def by blast+
  have inj: "inj_on (?m(attr_type r \<mapsto> ?n)) (dom (?m(attr_type r \<mapsto> ?n)))"
  proof (rule inj_onI)
    fix a b
    assume a: "a \<in> dom (?m(attr_type r \<mapsto> ?n))" and b: "b \<in> dom (?m(attr_type r \<mapsto> ?n))"
      and eq: "(?m(attr_type r \<mapsto> ?n)) a = (?m(attr_type r \<mapsto> ?n)) b"
    show "a = b"
    proof (cases "a = attr_type r")
      case True
      show ?thesis
      proof (cases "b = attr_type r")
        case True
        with \<open>a = attr_type r\<close> show ?thesis by simp
      next
        case False
        with True eq have "?m b = Some ?n" by simp
        with ok(1) show ?thesis by fastforce
      qed
    next
      case False
      show ?thesis
      proof (cases "b = attr_type r")
        case True
        with False eq have "?m a = Some ?n" by simp
        with ok(1) show ?thesis by fastforce
      next
        case bf: False
        with False a b eq have "a \<in> dom ?m" "b \<in> dom ?m" "?m a = ?m b"
          by auto
        with ok(2) show ?thesis by (auto dest: inj_onD)
      qed
    qed
  qed
  have card: "card (dom (?m(attr_type r \<mapsto> ?n))) = Suc (card (dom ?m))"
    using fresh ok(3) by simp
  have range: "\<forall>t i. (?m(attr_type r \<mapsto> ?n)) t = Some i \<longrightarrow> base \<le> i \<and> i < Suc ?n"
    using ok(1,4) by (auto simp: less_Suc_eq)
  from inj card range ok(3,4) have "registry_ok base st1"
    unfolding registry_ok_def m s by simp
  moreover have "dom (type_to_series_map st1) = insert (attr_type r) (dom ?m)"
    unfolding m by simp
  moreover from ok(4) have "take base (series (series_collection st1)) = take base (series (series_collection st))"
    unfolding s by simp
  ultimately show ?thesis by blast
next
  case (Some i)
  from process_record_known [OF Some assms(2)] obtain S where
    m: "type_to_series_map st1 = type_to_series_map st" and
    s: "series (series_collection st1) = (series (series_collection st))[i := S]"
    by blast
  from assms(1) Some have "base \<le> i"
    by (auto simp: registry_ok_def)
  then have "take base ((series (series_collection st))[i := S]) = take base (series (series_collection st))"
    by simp
  moreover from assms(1) have "registry_ok base st1"
    unfolding registry_ok_def m s by auto
  moreover from Some have "dom (type_to_series_map st1) = insert (attr_type r) (dom (type_to_series_map st))"
    unfolding m by auto
  ultimately show ?thesis
    unfolding s by blast
qed

lemma own_measurement_of:
  assumes "AddMeasurementToSeries ext r sp new = Inr s"
  shows "\<exists>m. measurement s = measurement sp @ [m] \<and> own_measurement ext r m"
proof -
  from assms obtain c f n where
    c: "classify (attr_type r) = Some (c, f, n)" and
    ok: "convert_by_rule c f n ext r sp new = Inr s"
    by (auto simp: AddMeasurementToSeries_Inr_iff)
  from ok obtain nm v time where
    parts: "rule_check c r = None" "destination_name c n (attr_value r) = Inr nm"
      "derive (rule_derivation c) ext r = Inr v"
      "ParseTime ext (attr_startDate r) = Some time" "attr_sourceName r \<noteq> []" and
    s: "measurement s = measurement sp @
          [\<lparr>ms_since_unix_epoch = unix_millis time, value = v,
            group = DefaultGroup ext (member_function c),
            source = ''HealthKit:'' @ ToCamelCase ext (attr_sourceName r)\<rparr>]"
    by (auto simp: convert_by_rule_Inr_iff)
  let ?m = "\<lparr>ms_since_unix_epoch = unix_millis time, value = v,
            group = DefaultGroup ext (member_function c),
            source = ''HealthKit:'' @ ToCamelCase ext (attr_sourceName r)\<rparr>"
  from parts have "convert_by_rule c f n ext r new_Series True
      = Inr (new_Series\<lparr>name := nm, family := f, unit := rule_target_unit c,
               measurement := measurement new_Series @ [?m]\<rparr>)"
    by (simp add: convert_by_rule_Inr_iff)
  with c have "AddMeasurementToSeries ext r new_Series True
      = Inr (new_Series\<lparr>name := nm, family := f, unit := rule_target_unit c,
               measurement := measurement new_Series @ [?m]\<rparr>)"
    using AddMeasurementToSeries_rule [of r c f n ext new_Series True] by simp
  then have "own_measurement ext r ?m"
    by (simp add: own_measurement_def new_Series_def)
  with s show ?thesis by blast
qed

lemma own_measurement_source:
  "own_measurement ext r m \<Longrightarrow> source m = ''HealthKit:'' @ ToCamelCase ext (attr_sourceName r)"
  by (auto simp: own_measurement_def split: sum.splits
           dest!: AddMeasurementToSeries_appends)

lemma own_measurements_sources:
  "list_all2 (own_measurement ext) rs ms \<Longrightarrow>
   map source ms = map (\<lambda>r. ''HealthKit:'' @ ToCamelCase ext (attr_sourceName r)) rs"
  by (induction rule: list_all2_induct) (simp_all add: own_measurement_source)

lemma records_of_type_Cons:
  "records_of_type t (elem # elems) =
     (if fst elem \<noteq> ''Record'' then records_of_type t elems
      else
        case CreateFromXmlRecord (snd elem) of
          Inl e \<Rightarrow> records_of_type t elems
        | Inr r \<Rightarrow> if attr_type r = t then r # records_of_type t elems
                   else records_of_type t elems)"
  by (simp add: records_of_type_def extracted_records_Cons split: sum.splits)

lemma registered_type:
  assumes "registry_ok base st"
      and "type_to_series_map st t = Some i"
      and "process_elements ext elems st = Inr st'"
  shows "type_to_series_map st' t = Some i
       \<and> name (series (series_collection st') ! i) = name (series (series_collection st) ! i)
       \<and> family (series (series_collection st') ! i) = family (series (series_collection st) ! i)
       \<and> unit (series (series_collection st') ! i) = unit (series (series_collection st) ! i)
       \<and> (\<exists>ms. measurement (series (series_collection st') ! i)
                 = measurement (series (series_collection st) ! i) @ ms
              \<and> list_all2 (own_measurement ext) (records_of_type t elems) ms)"
  using assms
proof (induction elems arbitrary: st)
  case Nil
  then show ?case
    by (simp add: records_of_type_def extracted_records_def map_filter_simps)
next
  case (Cons elem elems)
  show ?case
  proof (cases "fst elem \<noteq> ''Record''")
    case True
    with Cons.prems(3) have "process_elements ext elems st = Inr st'"
      by (simp add: process_elements_Cons del: process_elements.simps)
    from Cons.IH [OF Cons.prems(1,2) this] True show ?thesis
      by (simp add: records_of_type_Cons)
  next
    case False
    with Cons.prems(3) obtain r st1 where
      r: "CreateFromXmlRecord (snd elem) = Inr r" and
      step: "process_record ext r st = Inr st1" and
      run: "process_elements ext elems st1 = Inr st'"
      by (auto simp: process_elements_Cons simp del: process_elements.simps split: sum.splits)
    from registry_ok_step [OF Cons.prems(1) step] have ok1: "registry_ok base st1"
      by blast
    from Cons.prems(1,2) have i: "i < length (series (series_collection st))"
      by (auto simp: registry_ok_def)
    let ?old = "series (series_collection st)"
    show ?thesis
    proof (cases "attr_type r = t")
      case True
      with Cons.prems(2) have known: "type_to_series_map st (attr_type r) = Some i"
        by simp
      from process_record_known [OF known step] obtain S where
        S: "AddMeasurementToSeries ext r (?old ! i) False = Inr S" and
        m1: "type_to_series_map st1 = type_to_series_map st" and
        s1: "series (series_collection st1) = ?old[i := S]"
        by blast
      from m1 Cons.prems(2) have "type_to_series_map st1 t = Some i"
        by simp
      from Cons.IH [OF ok1 this run] s1 i obtain ms where
        ih: "type_to_series_map st' t = Some i"
            "name (series (series_collection st') ! i) = name S"
            "family (series (series_collection st') ! i) = family S"
            "unit (series (series_collection st') ! i) = unit S"
            "measurement (series (series_collection st') ! i) = measurement S @ ms"
            "list_all2 (own_measurement ext) (records_of_type t elems) ms"
        by auto
      from AddMeasurementToSeries_appends [OF S] have
        meta: "name S = name (?old ! i)" "family S = family (?old ! i)" "unit S = unit (?old ! i)"
        by simp_all
      from own_measurement_of [OF S] obtain m where
        m: "measurement S = measurement (?old ! i) @ [m]" "own_measurement ext r m"
        by blast
      have "records_of_type t (elem # elems) = r # records_of_type t elems"
        using False r True by (simp add: records_of_type_Cons)
      with ih meta m show ?thesis
        by (intro conjI exI [of _ "m # ms"]) simp_all
    next
      case other: False
      have same: "type_to_series_map st1 t = Some i
          \<and> series (series_collection st1) ! i = ?old ! i"
      proof (cases "type_to_series_map st (attr_type r)")
        case None
        then have "attr_type r \<notin> dom (type_to_series_map st)"
          by (simp add: domIff)
        from process_record_fresh [OF this step] other Cons.prems(2) i show ?thesis
          by (auto simp: nth_append)
      next
        case (Some j)
        from Cons.prems(1) have "inj_on (type_to_series_map st) (dom (type_to_series_map st))"
          by (simp add: registry_ok_def)
        with Some Cons.prems(2) other have "j \<noteq> i"
          by (auto simp: inj_on_def dom_def)
        with process_record_known [OF Some step] Cons.prems(2) show ?thesis
          by auto
      qed
      then have "type_to_series_map st1 t = Some i" by blast
      from Cons.IH [OF ok1 this run] same have
        "type_to_series_map st' t = Some i
       \<and> name (series (series_collection st') ! i) = name (?old ! i)
       \<and> family (series (series_collection st') ! i) = family (?old ! i)
       \<and> unit (series (series_collection st') ! i) = unit (?old ! i)
       \<and> (\<exists>ms. measurement (series (series_collection st') ! i) = measurement (?old ! i) @ ms
              \<and> list_all2 (own_measurement ext) (records_of_type t elems) ms)"
        by simp
      moreover have "records_of_type t (elem # elems) = records_of_type t elems"
        using False r other by (simp add: records_of_type_Cons)
      ultimately show ?thesis by simp
    qed
  qed
qed

lemma unregistered_type:
  assumes "registry_ok base st"
      and "t \<notin> dom (type_to_series_map st)"
      and "process_elements ext elems st = Inr st'"
      and "records_of_type t elems \<noteq> []"
  shows "\<exists>i S1. type_to_series_map st' t = Some i
           \<and> AddMeasurementToSeries ext (hd (records_of_type t elems)) new_Series True = Inr S1
           \<and> name (series (series_collection st') ! i) = name S1
           \<and> family (series (series_collection st') ! i) = family S1
           \<and> unit (series (series_collection st') ! i) = unit S1
           \<and> list_all2 (own_measurement ext) (records_of_type t elems)
                 (measurement (series (series_collection st') ! i))"
  using assms
proof (induction elems arbitrary: st)
  case Nil
  then show ?case
    by (simp add: records_of_type_def extracted_records_def map_filter_simps)
next
  case (Cons elem elems)
  show ?case
  proof (cases "fst elem \<noteq> ''Record''")
    case True
    with Cons.prems(3) have run: "process_elements ext elems st = Inr st'"
      by (simp add: process_elements_Cons del: process_elements.simps)
    from True Cons.prems(4) have "records_of_type t elems \<noteq> []"
      by (simp add: records_of_type_Cons)
    from Cons.IH [OF Cons.prems(1,2) run this] True show ?thesis
      by (simp add: records_of_type_Cons)
  next
    case False
    with Cons.prems(3) obtain r st1 where
      r: "CreateFromXmlRecord (snd elem) = Inr r" and
      step: "process_record ext r st = Inr st1" and
      run: "process_elements ext elems st1 = Inr st'"
      by (auto simp: process_elements_Cons simp del: process_elements.simps split: sum.splits)
    from registry_ok_step [OF Cons.prems(1) step] have
      ok1: "registry_ok base st1" and
      dom1: "dom (type_to_series_map st1) = insert (attr_type r) (dom (type_to_series_map st))"
      by blast+
    let ?old = "series (series_collection st)"
    show ?thesis
    proof (cases "attr_type r = t")
      case True
      with Cons.prems(2) have fresh: "attr_type r \<notin> dom (type_to_series_map st)"
        by simp
      from process_record_fresh [OF fresh step] True obtain S1 where
        S1: "AddMeasurementToSeries ext r new_Series True = Inr S1" and
        m1: "type_to_series_map st1 t = Some (length ?old)" and
        s1: "series (series_collection st1) = ?old @ [S1]"
        by auto
      from registered_type [OF ok1 m1 run] s1 obtain ms where
        reg: "type_to_series_map st' t = Some (length ?old)"
             "name (series (series_collection st') ! length ?old) = name S1"
             "family (series (series_collection st') ! length ?old) = family S1"
             "unit (series (series_collection st') ! length ?old) = unit S1"
             "measurement (series (series_collection st') ! length ?old) = measurement S1 @ ms"
             "list_all2 (own_measurement ext) (records_of_type t elems) ms"
        by auto
      from own_measurement_of [OF S1] obtain m where
        m: "measurement S1 = [m]" "own_measurement ext r m"
        by (auto simp: new_Series_def)
      have recs: "records_of_type t (elem # elems) = r # records_of_type t elems"
        using False r True by (simp add: records_of_type_Cons)
      from reg m S1 show ?thesis
        unfolding recs
        by (intro exI [of _ "length ?old"] exI [of _ S1]) simp
    next
      case other: False
      from other dom1 Cons.prems(2) have fresh1: "t \<notin> dom (type_to_series_map st1)"
        by auto
      have recs: "records_of_type t (elem # elems) = records_of_type t elems"
        using False r other by (simp add: records_of_type_Cons)
      with Cons.prems(4) have "records_of_type t elems \<noteq> []"
        by simp
      from Cons.IH [OF ok1 fresh1 run this] show ?thesis
        unfolding recs .
    qed
  qed
qed

lemma whole_run:
  assumes "registry_ok base st" and "process_elements ext elems st = Inr st'"
  shows "registry_ok base st'
       \<and> dom (type_to_series_map st')
           = dom (type_to_series_map st) \<union> attr_type ` set (extracted_records elems)
       \<and> take base (series (series_collection st')) = take base (series (series_collection st))"
  using assms
proof (induction elems arbitrary: st)
  case Nil
  then show ?case
    by (simp add: extracted_records_def map_filter_simps)
next
  case (Cons elem elems)
  show ?case
  proof (cases "fst elem \<noteq> ''Record''")
    case True
    with Cons.prems(2) have "process_elements ext elems st = Inr st'"
      by (simp add: process_elements_Cons del: process_elements.simps)
    from Cons.IH [OF Cons.prems(1) this] True show ?thesis
      by (simp add: extracted_records_Cons)
  next
    case False
    with Cons.prems(2) obtain r st1 where
      r: "CreateFromXmlRecord (snd elem) = Inr r" and
      step: "process_record ext r st = Inr st1" and
      run: "process_elements ext elems st1 = Inr st'"
      by (auto simp: process_elements_Cons simp del: process_elements.simps split: sum.splits)
    from registry_ok_step [OF Cons.prems(1) step] have
      ok1: "registry_ok base st1" and
      dom1: "dom (type_to_series_map st1) = insert (attr_type r) (dom (type_to_series_map st))" and
      pre1: "take base (series (series_collection st1)) = take base (series (series_collection st))"
      by blast+
    from Cons.IH [OF ok1 run] dom1 pre1 False r show ?thesis
      by (auto simp: extracted_records_Cons)
  qed
qed

text \<open>
  C7: resolving the series of a type that is not registered yet, \<open>N\<close> times in a row,
  creates one series in all; every resolution returns that series, and the flag that
  makes the caller write the name, family and unit is set by the first resolution
  only. In an export, the series that the collection had are kept and one series is
  added for each type that occurs. For every type that occurs, its series has the
  name, family and unit that the first record of the type writes to a new series,
  and holds one measurement for each record of the type, in order, each being the
  measurement of its own record, with the source \<open>"HealthKit:"\<close> and the camel-cased
  source name of that record (so two sources differ when the camel-cased names do).
\<close>

theorem one_series_per_record_type:
  assumes "1 \<le> N" and "t \<notin> dom (type_to_series_map st)"
      and "ProcessHealthKitXmlExport ext (xml_export elems) c = Inr c'"
      and "records_of_type t elems \<noteq> []"
  shows "series (series_collection (resolutions t N st))
           = series (series_collection st) @ [new_Series]
       \<and> (\<forall>k<N. fst (resolve_series t (resolutions t k st)) = length (series (series_collection st))
                \<and> set_properties_on_series (snd (resolve_series t (resolutions t k st))) = (k = 0))
       \<and> take (length (series c)) (series c') = series c
       \<and> length (series c') = length (series c) + card (attr_type ` set (extracted_records elems))
       \<and> (\<exists>i S1. length (series c) \<le> i \<and> i < length (series c')
             \<and> AddMeasurementToSeries ext (hd (records_of_type t elems)) new_Series True = Inr S1
             \<and> name (series c' ! i) = name S1
             \<and> family (series c' ! i) = family S1
             \<and> unit (series c' ! i) = unit S1
             \<and> list_all2 (own_measurement ext) (records_of_type t elems) (measurement (series c' ! i))
             \<and> map source (measurement (series c' ! i))
                 = map (\<lambda>r. ''HealthKit:'' @ ToCamelCase ext (attr_sourceName r))
                     (records_of_type t elems))"
proof -
  let ?st0 = "\<lparr>type_to_series_map = Map.empty, series_collection = c,
               set_properties_on_series = False\<rparr>"
  let ?base = "length (series c)"
  from assms(3) obtain st' where
    run: "process_elements ext elems ?st0 = Inr st'" and
    c': "c' = series_collection st'"
    by (auto simp: ProcessHealthKitXmlExport_def xml_export_def split: sum.splits)
  have ok0: "registry_ok ?base ?st0"
    by (simp add: registry_ok_def)
  from whole_run [OF ok0 run] have
    ok: "registry_ok ?base st'" and
    dom: "dom (type_to_series_map st') = attr_type ` set (extracted_records elems)" and
    pre: "take ?base (series c') = series c"
    unfolding c' by simp_all
  from ok dom have len: "length (series c') = ?base + card (attr_type ` set (extracted_records elems))"
    unfolding c' by (simp add: registry_ok_def)
  have "t \<notin> dom (type_to_series_map ?st0)"
    by simp
  from unregistered_type [OF ok0 this run assms(4)] obtain i S1 where
    i: "type_to_series_map st' t = Some i" and
    S1: "AddMeasurementToSeries ext (hd (records_of_type t elems)) new_Series True = Inr S1"
        "name (series c' ! i) = name S1" "family (series c' ! i) = family S1"
        "unit (series c' ! i) = unit S1" and
    own: "list_all2 (own_measurement ext) (records_of_type t elems) (measurement (series c' ! i))"
    unfolding c' by blast
  from ok i have range: "?base \<le> i \<and> i < length (series c')"
    unfolding c' by (auto simp: registry_ok_def)
  from own_measurements_sources [OF own] have
    src: "map source (measurement (series c' ! i))
            = map (\<lambda>r. ''HealthKit:'' @ ToCamelCase ext (attr_sourceName r)) (records_of_type t elems)" .
  from resolutions_properties [OF assms(2,1)] pre len range S1 own src show ?thesis
    by blast
qed

text \<open>Two step counts, from a phone and from a watch, around a body mass.\<close>

lemma mixed_export_result:
  "ProcessHealthKitXmlExport example_externals (xml_export mixed_export) empty_collection
   = Inr \<lparr>collection_source = [],
          series =
            [\<lparr>name = ''StepCount'', family = ''Activity'', unit = ''count'',
              measurement =
                [\<lparr>ms_since_unix_epoch = 1577865600000, value = 100,
                  group = ''BodyMeasurements'', source = ''HealthKit:iPhone''\<rparr>,
                 \<lparr>ms_since_unix_epoch = 1577865600000, value = 250,
                  group = ''BodyMeasurements'', source = ''HealthKit:Watch''\<rparr>]\<rparr>,
             \<lparr>name = ''Weight'', family = ''BodyMeasurements'', unit = ''milligrams'',
              measurement =
                [\<lparr>ms_since_unix_epoch = 1577865600000, value = 70500000,
                  group = ''BodyMeasurements'', source = ''HealthKit:iPhone''\<rparr>]\<rparr>]\<rparr>"
  by code_simp

lemma mixed_export_steps:
  "records_of_type ''HKQuantityTypeIdentifierStepCount'' mixed_export
   = [step_attributes ''iPhone'' ''100'', step_attributes ''Watch'' ''250'']"
  by code_simp

theorem one_series_per_record_type_witness:
  "(1 :: nat) \<le> 2
   \<and> ''HKQuantityTypeIdentifierStepCount'' \<notin> dom (type_to_series_map initial_state)
   \<and> ProcessHealthKitXmlExport example_externals (xml_export mixed_export) empty_collection
     = Inr \<lparr>collection_source = [],
          series =
            [\<lparr>name = ''StepCount'', family = ''Activity'', unit = ''count'',
              measurement =
                [\<lparr>ms_since_unix_epoch = 1577865600000, value = 100,
                  group = ''BodyMeasurements'', source = ''HealthKit:iPhone''\<rparr>,
                 \<lparr>ms_since_unix_epoch = 1577865600000, value = 250,
                  group = ''BodyMeasurements'', source = ''HealthKit:Watch''\<rparr>]\<rparr>,
             \<lparr>name = ''Weight'', family = ''BodyMeasurements'', unit = ''milligrams'',
              measurement =
                [\<lparr>ms_since_unix_epoch = 1577865600000, value = 70500000,
                  group = ''BodyMeasurements'', source = ''HealthKit:iPhone''\<rparr>]\<rparr>]\<rparr>
   \<and> records_of_type ''HKQuantityTypeIdentifierStepCount'' mixed_export
     = [step_attributes ''iPhone'' ''100'', step_attributes ''Watch'' ''250'']
   \<and> card (attr_type ` set (extracted_records mixed_export)) = 2
   \<and> series (series_collection (resolutions ''HKQuantityTypeIdentifierStepCount'' 2 initial_state))
       = [new_Series]
   \<and> fst (resolve_series ''HKQuantityTypeIdentifierStepCount''
            (resolutions ''HKQuantityTypeIdentifierStepCount'' 0 initial_state)) = 0
   \<and> set_properties_on_series
         (snd (resolve_series ''HKQuantityTypeIdentifierStepCount''
            (resolutions ''HKQuantityTypeIdentifierStepCount'' 0 initial_state)))
   \<and> fst (resolve_series ''HKQuantityTypeIdentifierStepCount''
            (resolutions ''HKQuantityTypeIdentifierStepCount'' 1 initial_state)) = 0
   \<and> \<not> set_properties_on_series
         (snd (resolve_series ''HKQuantityTypeIdentifierStepCount''
            (resolutions ''HKQuantityTypeIdentifierStepCount'' 1 initial_state)))"
proof -
  have h1: "(1 :: nat) \<le> 2" by simp
  have h2: "''HKQuantityTypeIdentifierStepCount'' \<notin> dom (type_to_series_map initial_state)"
    by (simp add: initial_state_def)
  have h4: "records_of_type ''HKQuantityTypeIdentifierStepCount'' mixed_export \<noteq> []"
    by (simp add: mixed_export_steps)
  note all = one_series_per_record_type [OF h1 h2 mixed_export_result h4]
  from all have "card (attr_type ` set (extracted_records mixed_export)) = 2"
    by (simp add: empty_collection_def)
  moreover from all have
    "series (series_collection (resolutions ''HKQuantityTypeIdentifierStepCount'' 2 initial_state))
       = [new_Series]"
    by (simp add: initial_state_def empty_collection_def)
  moreover from all have
    "\<forall>k<2. fst (resolve_series ''HKQuantityTypeIdentifierStepCount''
                   (resolutions ''HKQuantityTypeIdentifierStepCount'' k initial_state)) = 0
            \<and> set_properties_on_series
                 (snd (resolve_series ''HKQuantityTypeIdentifierStepCount''
                   (resolutions ''HKQuantityTypeIdentifierStepCount'' k initial_state))) = (k = 0)"
    by (simp add: initial_state_def empty_collection_def)
  then have "fst (resolve_series ''HKQuantityTypeIdentifierStepCount''
            (resolutions ''HKQuantityTypeIdentifierStepCount'' 0 initial_state)) = 0
   \<and> set_properties_on_series
         (snd (resolve_series ''HKQuantityTypeIdentifierStepCount''
            (resolutions ''HKQuantityTypeIdentifierStepCount'' 0 initial_state)))
   \<and> fst (resolve_series ''HKQuantityTypeIdentifierStepCount''
            (resolutions ''HKQuantityTypeIdentifierStepCount'' 1 initial_state)) = 0
   \<and> \<not> set_properties_on_series
         (snd (resolve_series ''HKQuantityTypeIdentifierStepCount''
            (resolutions ''HKQuantityTypeIdentifierStepCount'' 1 initial_state)))"
    by simp
  ultimately show ?thesis
    using h1 h2 mixed_export_result mixed_export_steps by blast
qed

section \<open>Unit validation\<close>

text \<open>
  C4: a record whose unit differs from the unit that the rule of its type expects is
  never converted: whatever the other fields are, the run ends in a fatal error and
  no series is returned. The unit is compared, not coerced.
\<close>

theorem unit_mismatch_is_fatal:
  assumes "expected_unit (attr_type this) = Some u" and "attr_unit this \<noteq> u"
  shows "\<exists>x. AddMeasurementToSeries ext this sp new = Inl (Fatal x)"
proof -
  from assms(1) obtain c f n where c: "classify (attr_type this) = Some (c, f, n)" and "u = rule_unit c"
    by (auto simp: expected_unit_def)
  with assms(2) obtain x where "rule_check c this = Some x"
    using rule_check_unit by blast
  with c show ?thesis
    by (simp add: AddMeasurementToSeries_rule convert_by_rule_def)
qed

text \<open>The example of the specification: a body mass in pounds.\<close>

theorem unit_mismatch_is_fatal_witness:
  "expected_unit (attr_type (body_mass_record ''lb'' ''155'')) = Some ''kg''
   \<and> attr_unit (body_mass_record ''lb'' ''155'') \<noteq> ''kg''
   \<and> (\<exists>x. AddMeasurementToSeries example_externals (body_mass_record ''lb'' ''155'') new_Series True
            = Inl (Fatal x))"
proof -
  have h1: "expected_unit (attr_type (body_mass_record ''lb'' ''155'')) = Some ''kg''"
    by (simp add: body_mass_record_def expected_unit_def classify_body_mass)
  have h2: "attr_unit (body_mass_record ''lb'' ''155'') \<noteq> ''kg''"
    by (simp add: body_mass_record_def)
  from unit_mismatch_is_fatal [OF h1 h2] h1 h2 show ?thesis
    by blast
qed

section \<open>Mindful sessions\<close>

text \<open>
  C10: a mindful session is converted only when both its value and its unit are
  empty. A value that is not empty is a fatal error, although the duration is
  computed from the two dates alone.
\<close>

theorem mindful_session_requires_empty_value_and_unit:
  assumes "attr_type this = ''HKCategoryTypeIdentifierMindfulSession''"
  shows "(attr_value this \<noteq> [] \<longrightarrow>
            AddMeasurementToSeries ext this sp new = Inl (Fatal ValueNotEmpty))
       \<and> (\<forall>s. AddMeasurementToSeries ext this sp new = Inr s \<longrightarrow>
            attr_value this = [] \<and> attr_unit this = [])"
  using assms
  by (auto simp: AddMeasurementToSeries_rule [OF classify_mindful [folded assms]]
        classify_mindful AddMeasurementToSeries_classify consume_convert_by_rule
        convert_by_rule_def split: if_splits)

text \<open>
  A session whose value is not empty is refused; the same session without a value is
  converted, and lasts ten minutes.
\<close>

theorem mindful_session_requires_empty_value_and_unit_witness:
  "attr_type (mindful_record ''1'') = ''HKCategoryTypeIdentifierMindfulSession''
   \<and> attr_value (mindful_record ''1'') \<noteq> []
   \<and> AddMeasurementToSeries example_externals (mindful_record ''1'') new_Series True
       = Inl (Fatal ValueNotEmpty)
   \<and> AddMeasurementToSeries example_externals (mindful_record []) new_Series True
       = Inr \<lparr>name = ''MindfulnessTime'', family = ''TimeTracking'', unit = ''milliseconds'',
              measurement =
                [\<lparr>ms_since_unix_epoch = 1577865600000, value = 600000,
                  group = ''BodyMeasurements'', source = ''HealthKit:iPhone''\<rparr>]\<rparr>
   \<and> attr_value (mindful_record []) = [] \<and> attr_unit (mindful_record []) = []"
proof -
  have h: "attr_type (mindful_record v) = ''HKCategoryTypeIdentifierMindfulSession''" for v
    by (simp add: mindful_record_def)
  have v: "attr_value (mindful_record ''1'') \<noteq> []"
    by (simp add: mindful_record_def)
  have ok: "AddMeasurementToSeries example_externals (mindful_record []) new_Series True
       = Inr \<lparr>name = ''MindfulnessTime'', family = ''TimeTracking'', unit = ''milliseconds'',
              measurement =
                [\<lparr>ms_since_unix_epoch = 1577865600000, value = 600000,
                  group = ''BodyMeasurements'', source = ''HealthKit:iPhone''\<rparr>]\<rparr>"
    by code_simp
  from mindful_session_requires_empty_value_and_unit [OF h, of "''1''" example_externals new_Series True] v
  have bad: "AddMeasurementToSeries example_externals (mindful_record ''1'') new_Series True
       = Inl (Fatal ValueNotEmpty)"
    by blast
  from mindful_session_requires_empty_value_and_unit [OF h, of "[]" example_externals new_Series True] ok
  have "attr_value (mindful_record []) = [] \<and> attr_unit (mindful_record []) = []"
    by blast
  with h v ok bad show ?thesis
    by blast
qed

end
